theory Spec2Isabelle
  imports Main
begin

section \<open>The defaults module (esgfpid/defaults.py)\<close>

text \<open>
  A Python module is a namespace: an association of attribute names with values.
  Reading an attribute the module does not define raises AttributeError.
  A float literal is kept as mantissa and binary exponent (0.5 is 1 * 2^-1).
\<close>

datatype pyval =
    PyBool bool
  | PyInt int
  | PyStr string
  | PyList "pyval list"
  | PyFloat int int

datatype errormsg =
    Gave_up_after_force_finish "string set"
  | Gave_up_after_tries "string set" int

datatype exn =
    PIDServerException errormsg
  | AttributeError string
  | TypeError string

definition ROUTING_KEY_BASIS :: string where
  "ROUTING_KEY_BASIS = ''cmip6.publisher.HASH.''"

definition defaults :: "(string \<times> pyval) list" where
  "defaults =
    [(''ACCEPTED_PREFIXES'', PyList [PyStr ''21.14100'', PyStr ''21.14foo'']),
     (''LOG_INFO_TO_DEBUG'', PyBool False),
     (''LOG_DEBUG_TO_INFO'', PyBool False),
     (''LOG_TRACE_TO_DEBUG'', PyBool False),
     (''LOG_SHOW_TO_INFO'', PyBool False),
     (''SOLR_HTTPS_VERIFY_DEFAULT'', PyBool False),
     (''SOLR_QUERY_DISTRIB'', PyBool False),
     (''RABBIT_IS_ASYNCHRONOUS'', PyBool True),
     (''ROUTING_KEY_BASIS'', PyStr ROUTING_KEY_BASIS),
     (''RABBIT_DEFAULT_ROUTING_KEY'', PyStr (ROUTING_KEY_BASIS @ ''fallback'')),
     (''RABBIT_EMERGENCY_ROUTING_KEY'', PyStr (ROUTING_KEY_BASIS @ ''emergency'')),
     (''_persistent'', PyInt 2),
     (''_nonpersistent'', PyInt 1),
     (''RABBIT_DELIVERY_MODE'', PyInt 2),
     (''RABBIT_MANDATORY_DELIVERY'', PyBool True),
     (''RABBIT_FALLBACK_EXCHANGE_NAME'', PyStr ''FALLBACK''),
     (''RABBIT_SYN_SOCKET_TIMEOUT'', PyInt 2),
     (''RABBIT_SYN_CONNECTION_ATTEMPTS'', PyInt 3),
     (''RABBIT_SYN_CONNECTION_RETRY_DELAY_SECONDS'', PyInt 1),
     (''RABBIT_SYN_MAX_TRIES'', PyInt 3),
     (''RABBIT_SYN_TIMEOUT_MILLISEC'', PyInt 10),
     (''RABBIT_ASYN_RECONNECTION_SECONDS'', PyInt 5),
     (''RABBIT_ASYN_RECONNECTION_MAX_TRIES'', PyInt 60),
     (''RABBIT_ASYN_SOCKET_TIMEOUT'', PyInt 2),
     (''RABBIT_ASYN_CONNECTION_ATTEMPTS'', PyInt 1),
     (''RABBIT_ASYN_CONNECTION_RETRY_DELAY_SECONDS'', PyInt 1),
     (''RABBIT_ASYN_FINISH_MAX_TRIES'', PyInt 10),
     (''RABBIT_ASYN_FINISH_WAIT_SECONDS'', PyFloat 1 (- 1)),
     (''RABBIT_LOG_MESSAGE_INCREMENT'', PyInt 10)]"

definition getattr :: "(string \<times> pyval) list \<Rightarrow> string \<Rightarrow> exn + pyval" where
  "getattr module name =
     (case map_of module name of
        None \<Rightarrow> Inl (AttributeError name)
      | Some v \<Rightarrow> Inr v)"

section \<open>Collaborators of the connection builder\<close>

subsection \<open>Node manager\<close>

record connection_parameters =
  host :: string

text \<open>
  Modelled from the spec: the node manager (the spec's HostDirectory, section 4.1) is an
  ordered sequence of endpoints with a cursor. The endpoints before the cursor are the
  ones already tried in the current cycle, the endpoint at the cursor is the current one,
  the endpoints behind it are still untried in this cycle. There is always a current
  endpoint, so the sequence is never empty.
\<close>

record nodemanager =
  tried :: "connection_parameters list"
  current :: connection_parameters
  untried :: "connection_parameters list"

definition all_nodes :: "nodemanager \<Rightarrow> connection_parameters list" where
  "all_nodes nm = tried nm @ current nm # untried nm"

text \<open>Modelled from the spec: \<open>current() -> Endpoint\<close>.\<close>

definition get_connection_parameters :: "nodemanager \<Rightarrow> connection_parameters" where
  "get_connection_parameters nm = current nm"

definition get_num_left_urls :: "nodemanager \<Rightarrow> nat" where
  "get_num_left_urls nm = length (untried nm)"

text \<open>Modelled from the spec: \<open>has_more_untried_in_cycle() -> bool\<close>.\<close>

definition has_more_urls :: "nodemanager \<Rightarrow> bool" where
  "has_more_urls nm = (get_num_left_urls nm > 0)"

text \<open>
  Modelled from the spec: \<open>advance()\<close> moves the cursor to the next untried endpoint
  within the current cycle. The builder calls it only when there is one; with none left
  the cursor stays where it is.
\<close>

definition set_next_host :: "nodemanager \<Rightarrow> nodemanager" where
  "set_next_host nm =
     (case untried nm of
        [] \<Rightarrow> nm
      | p # ps \<Rightarrow> nm\<lparr>tried := tried nm @ [current nm], current := p, untried := ps\<rparr>)"

text \<open>
  Modelled from the spec: \<open>reset_cycle()\<close> returns the cursor to the first endpoint
  and marks the cycle boundary.
\<close>

definition reset_nodes :: "nodemanager \<Rightarrow> nodemanager" where
  "reset_nodes nm =
     (case all_nodes nm of
        [] \<Rightarrow> nm
      | p # ps \<Rightarrow> \<lparr>tried = [], current = p, untried = ps\<rparr>)"

subsection \<open>State machine\<close>

datatype lifecycle =
    INITIALIZING
  | WAITING_TO_BE_AVAILABLE
  | AVAILABLE
  | AVAILABLE_BUT_WANTS_TO_STOP
  | PERMANENTLY_UNAVAILABLE
  | FORCE_FINISHED

text \<open>
  Modelled from the spec: the state machine (LifecycleState, sections 3 and 4.2) is one of
  six states plus detail flags. Its operations are transitions only and no operation may
  fail; a test compares with the stored state.
\<close>

record statemachine =
  state :: lifecycle
  detail_closed_by_publisher :: bool
  detail_could_not_connect :: bool
  detail_authentication_exception :: bool

text \<open>
  Modelled from the spec: PERMANENTLY_UNAVAILABLE and FORCE_FINISHED are terminal
  (section 4.2).
\<close>

definition is_terminal :: "lifecycle \<Rightarrow> bool" where
  "is_terminal s = (s = PERMANENTLY_UNAVAILABLE \<or> s = FORCE_FINISHED)"

text \<open>
  Modelled from the spec: no transition leaves a terminal state (section 4.2), and no
  operation may fail: asked for WAITING_TO_BE_AVAILABLE in a terminal state, the state
  machine stays where it is.
\<close>

definition set_to_waiting_to_be_available :: "statemachine \<Rightarrow> statemachine" where
  "set_to_waiting_to_be_available sm =
     (if is_terminal (state sm) then sm else sm\<lparr>state := WAITING_TO_BE_AVAILABLE\<rparr>)"

text \<open>
  Modelled from the spec: likewise for AVAILABLE (section 4.2: no transition leaves a
  terminal state).
\<close>

definition set_to_available :: "statemachine \<Rightarrow> statemachine" where
  "set_to_available sm =
     (if is_terminal (state sm) then sm else sm\<lparr>state := AVAILABLE\<rparr>)"

text \<open>
  Modelled from the spec: PERMANENTLY_UNAVAILABLE is the state after retries are exhausted,
  after a close by the user, also a forced one, and after a permanent error (sections 4.2,
  4.3 step 5 and 4.6); the state machine stores it.
\<close>

definition set_to_permanently_unavailable :: "statemachine \<Rightarrow> statemachine" where
  "set_to_permanently_unavailable sm = sm\<lparr>state := PERMANENTLY_UNAVAILABLE\<rparr>"

text \<open>
  Modelled from the spec: an external force-finish is possible in any state (section 4.2:
  ANY to FORCE_FINISHED). The builder never calls it; the shutter does.
\<close>

definition set_to_force_finished :: "statemachine \<Rightarrow> statemachine" where
  "set_to_force_finished sm = sm\<lparr>state := FORCE_FINISHED\<rparr>"

definition is_WAITING_TO_BE_AVAILABLE :: "statemachine \<Rightarrow> bool" where
  "is_WAITING_TO_BE_AVAILABLE sm = (state sm = WAITING_TO_BE_AVAILABLE)"

definition is_AVAILABLE_BUT_WANTS_TO_STOP :: "statemachine \<Rightarrow> bool" where
  "is_AVAILABLE_BUT_WANTS_TO_STOP sm = (state sm = AVAILABLE_BUT_WANTS_TO_STOP)"

definition is_PERMANENTLY_UNAVAILABLE :: "statemachine \<Rightarrow> bool" where
  "is_PERMANENTLY_UNAVAILABLE sm = (state sm = PERMANENTLY_UNAVAILABLE)"

definition is_FORCE_FINISHED :: "statemachine \<Rightarrow> bool" where
  "is_FORCE_FINISHED sm = (state sm = FORCE_FINISHED)"

definition get_detail_closed_by_publisher :: "statemachine \<Rightarrow> bool" where
  "get_detail_closed_by_publisher sm = detail_closed_by_publisher sm"

subsection \<open>Rabbit thread\<close>

type_synonym message = string

text \<open>
  Modelled from the spec: the thread object owns the live connection and channel handles
  (\<open>_connection\<close>, \<open>_channel\<close>; \<open>None\<close> while there is none), the exchange selector,
  the pending messages (PendingMessage, a FIFO), the in-flight messages (InFlightMessage,
  delivery sequence number to message, kept in submission order) and the next delivery
  sequence number. The four close-reason constants are class attributes of the thread;
  their values are not among the sources and are fields here.
\<close>

record rabbit_thread =
  connection :: "nat option"
  channel :: "nat option"
  ERROR_CODE_CONNECTION_CLOSED_BY_USER :: int
  ERROR_TEXT_CONNECTION_FORCE_CLOSED :: string
  ERROR_TEXT_CONNECTION_NORMAL_SHUTDOWN :: string
  ERROR_TEXT_CONNECTION_PERMANENT_ERROR :: string
  exchange_name :: string
  unpublished_messages :: "message list"
  unconfirmed_messages :: "(nat \<times> message) list"
  delivery_number :: nat

text \<open>
  Modelled from the spec: the first delivery sequence number on a channel is 1
  (section 8: "the new channel's first delivery sequence number is 1").
\<close>

definition initial_delivery_number :: nat where
  "initial_delivery_number = 1"

text \<open>Modelled from the spec: swaps the active exchange selector.\<close>

definition set_exchange_name :: "string \<Rightarrow> rabbit_thread \<Rightarrow> rabbit_thread" where
  "set_exchange_name name t = t\<lparr>exchange_name := name\<rparr>"

text \<open>Modelled from the spec: the number of pending messages.\<close>

definition get_num_unpublished :: "rabbit_thread \<Rightarrow> nat" where
  "get_num_unpublished t = length (unpublished_messages t)"

text \<open>
  Modelled from the spec: (d) reset the next-delivery-sequence counter to its initial
  value for the new channel.
\<close>

definition reset_delivery_number :: "rabbit_thread \<Rightarrow> rabbit_thread" where
  "reset_delivery_number t = t\<lparr>delivery_number := initial_delivery_number\<rparr>"

text \<open>
  Modelled from the spec: (a) extract all InFlightMessage entries as a list, preserving
  original submission order. The mapping itself is left as it is (a copy is returned).
\<close>

definition get_unconfirmed_messages_as_list_copy_during_lifetime ::
  "rabbit_thread \<Rightarrow> message list" where
  "get_unconfirmed_messages_as_list_copy_during_lifetime t = map snd (unconfirmed_messages t)"

text \<open>
  Modelled from the spec: (c) puts the extracted messages back onto PendingMessage,
  preserving their relative order, ahead of anything newly submitted since the disruption
  (section 4.4; section 5: rescued messages "are re-inserted ahead of messages submitted
  after the disruption"). The messages go to the front of the pending queue, in the order
  given.
\<close>

definition send_many_messages :: "message list \<Rightarrow> rabbit_thread \<Rightarrow> rabbit_thread" where
  "send_many_messages msgs t = t\<lparr>unpublished_messages := msgs @ unpublished_messages t\<rparr>"

text \<open>Modelled from the spec: (b) clear the delivery-sequence mapping entirely.\<close>

definition reset_unconfirmed_messages_and_delivery_tags :: "rabbit_thread \<Rightarrow> rabbit_thread" where
  "reset_unconfirmed_messages_and_delivery_tags t = t\<lparr>unconfirmed_messages := []\<rparr>"

subsection \<open>Calls that leave the builder\<close>

text \<open>
  The builder talks to pika (connections, channels, the ioloop), to the thread and to the
  shutter. Each such call is recorded, oldest first, so that order, number and arguments
  of the calls can be stated. Connections and channels are named by numbers.
  \<open>Connection_add_timeout c w\<close> is \<open>connection.add_timeout(w, self.reconnect)\<close>.
\<close>

datatype call =
    Pika_SelectConnection string nat
  | Connection_channel nat
  | Connection_close nat
  | Connection_add_timeout nat int
  | Ioloop_start nat
  | Ioloop_stop nat
  | Channel_add_on_close_callback nat
  | Channel_add_on_return_callback nat
  | Channel_confirm_delivery nat
  | Thread_tell_publisher_to_stop_waiting_for_thread_to_accept_events
  | Thread_continue_gently_closing_if_applicable
  | Thread_add_event_publish_message
  | Thread_unblock_events
  | Thread_set_exchange_name string
  | Thread_reset_delivery_number
  | Thread_get_unconfirmed_messages_as_list_copy_during_lifetime
  | Thread_send_many_messages "message list"
  | Thread_reset_unconfirmed_messages_and_delivery_tags
  | Shutter_safety_finish string

section \<open>The connection builder (esgfpid/rabbit/asynchronous/thread_builder.py)\<close>

text \<open>
  The fields of \<open>self\<close>, followed by the surroundings the methods read and write:
  the clock (\<open>datetime.datetime.now()\<close>), the number of connection objects made so far
  (the next one gets this number) and the record of calls.
\<close>

record ConnectionBuilder =
  thread :: rabbit_thread
  statemachine :: statemachine
  confirmer :: nat
  returnhandler :: nat
  shutter :: nat
  node_manager :: nodemanager
  reconnect_counter :: int
  max_reconnection_tries :: int
  wait_seconds_before_reconnect :: int
  all_hosts_that_were_tried :: "string set"
  start_connect_time :: "nat option"
  fallback_exchange_name :: string
  now :: nat
  connections_created :: nat
  calls :: "call list"

type_synonym result = "(exn \<times> ConnectionBuilder) + ConnectionBuilder"

definition log_call :: "call \<Rightarrow> ConnectionBuilder \<Rightarrow> ConnectionBuilder" where
  "log_call c b = b\<lparr>calls := calls b @ [c]\<rparr>"

text \<open>
  \<open>self.thread._connection.attr\<close>: on \<open>None\<close> the attribute access raises
  AttributeError, otherwise the method continues with the connection.
\<close>

definition thread_connection ::
  "ConnectionBuilder \<Rightarrow> string \<Rightarrow> (nat \<Rightarrow> result) \<Rightarrow> result" where
  "thread_connection b attr f =
     (case connection (thread b) of
        None \<Rightarrow> Inl (AttributeError attr, b)
      | Some c \<Rightarrow> f c)"

text \<open>
  \<open>datetime.datetime.now() - self.__start_connect_time\<close> raises TypeError while the
  start time is still \<open>None\<close>.
\<close>

definition time_passed :: "ConnectionBuilder \<Rightarrow> exn + nat" where
  "time_passed b =
     (case start_connect_time b of
        None \<Rightarrow> Inl (TypeError ''unsupported operand type(s) for -'')
      | Some t \<Rightarrow> Inr (now b - t))"

subsection \<open>Construction\<close>

text \<open>
  \<open>__init__\<close> stores its arguments, sets the counter to 0 and then reads three
  attributes of the defaults module, in this order. The values the module defines under
  its integer names are integers; the model reports any other kind of value as a
  TypeError, which Python would store unchanged.
\<close>

definition getattr_int :: "(string \<times> pyval) list \<Rightarrow> string \<Rightarrow> exn + int" where
  "getattr_int module name =
     (case getattr module name of
        Inl e \<Rightarrow> Inl e
      | Inr (PyInt n) \<Rightarrow> Inr n
      | Inr _ \<Rightarrow> Inl (TypeError name))"

definition getattr_str :: "(string \<times> pyval) list \<Rightarrow> string \<Rightarrow> exn + string" where
  "getattr_str module name =
     (case getattr module name of
        Inl e \<Rightarrow> Inl e
      | Inr (PyStr s) \<Rightarrow> Inr s
      | Inr _ \<Rightarrow> Inl (TypeError name))"

definition init ::
  "rabbit_thread \<Rightarrow> statemachine \<Rightarrow> nat \<Rightarrow> nat \<Rightarrow> nat \<Rightarrow> nodemanager \<Rightarrow> exn + ConnectionBuilder" where
  "init thread' statemachine' confirmer' returnhandler' shutter' nodemanager' =
     (case getattr_int defaults ''RABBIT_RECONNECTION_MAX_TRIES'' of
        Inl e \<Rightarrow> Inl e
      | Inr tries \<Rightarrow>
     (case getattr_int defaults ''RABBIT_RECONNECTION_SECONDS'' of
        Inl e \<Rightarrow> Inl e
      | Inr seconds \<Rightarrow>
     (case getattr_str defaults ''RABBIT_FALLBACK_EXCHANGE_NAME'' of
        Inl e \<Rightarrow> Inl e
      | Inr fallback \<Rightarrow>
          Inr \<lparr>thread = thread',
               statemachine = statemachine',
               confirmer = confirmer',
               returnhandler = returnhandler',
               shutter = shutter',
               node_manager = nodemanager',
               reconnect_counter = 0,
               max_reconnection_tries = tries,
               wait_seconds_before_reconnect = seconds,
               all_hosts_that_were_tried = {},
               start_connect_time = None,
               fallback_exchange_name = fallback,
               now = 0,
               connections_created = 0,
               calls = []\<rparr>)))"

subsection \<open>Python's substring test\<close>

fun startswith :: "string \<Rightarrow> string \<Rightarrow> bool" where
  "startswith text [] = True"
| "startswith [] (p # ps) = False"
| "startswith (c # cs) (p # ps) = (c = p \<and> startswith cs ps)"

text \<open>\<open>str_in needle text\<close> is Python's \<open>needle in text\<close> on strings.\<close>

fun str_in :: "string \<Rightarrow> string \<Rightarrow> bool" where
  "str_in needle [] = (needle = [])"
| "str_in needle (c # cs) = (startswith (c # cs) needle \<or> str_in needle cs)"

subsection \<open>Reconnecting after a wait\<close>

definition wait_and_trigger_reconnection ::
  "ConnectionBuilder \<Rightarrow> nat \<Rightarrow> int \<Rightarrow> result" where
  "wait_and_trigger_reconnection b connection' wait_seconds =
     (if is_FORCE_FINISHED (statemachine b) then
        Inl (PIDServerException (Gave_up_after_force_finish (all_hosts_that_were_tried b)), b)
      else
        Inr (log_call (Connection_add_timeout connection' wait_seconds)
               (b\<lparr>statemachine := set_to_waiting_to_be_available (statemachine b)\<rparr>)))"

subsection \<open>Connection error\<close>

definition on_connection_error :: "ConnectionBuilder \<Rightarrow> nat \<Rightarrow> string \<Rightarrow> result" where
  "on_connection_error b connection' msg =
     (case time_passed b of
        Inl e \<Rightarrow> Inl (e, b)
      | Inr passed \<Rightarrow>
          if is_FORCE_FINISHED (statemachine b) then
            Inl (PIDServerException (Gave_up_after_force_finish (all_hosts_that_were_tried b)), b)
          else if has_more_urls (node_manager b) then
            wait_and_trigger_reconnection
              (b\<lparr>node_manager := set_next_host (node_manager b)\<rparr>) connection' 0
          else
            (let b1 = b\<lparr>reconnect_counter := reconnect_counter b + 1\<rparr> in
             if reconnect_counter b1 \<le> max_reconnection_tries b1 then
               wait_and_trigger_reconnection
                 (b1\<lparr>node_manager := reset_nodes (node_manager b1)\<rparr>) connection'
                 (wait_seconds_before_reconnect b1)
             else
               (let b2 = b1\<lparr>statemachine := set_to_permanently_unavailable (statemachine b1)\<rparr>;
                    b3 = b2\<lparr>statemachine := (statemachine b2)\<lparr>detail_could_not_connect := True\<rparr>\<rparr>
                in Inl (PIDServerException
                          (Gave_up_after_tries (all_hosts_that_were_tried b3)
                             (max_reconnection_tries b3)), b3))))"

subsection \<open>Starting the ioloop\<close>

definition please_open_connection :: "ConnectionBuilder \<Rightarrow> ConnectionBuilder" where
  "please_open_connection b =
     (let params = get_connection_parameters (node_manager b);
          b1 = b\<lparr>start_connect_time := Some (now b)\<rparr>;
          b2 = b1\<lparr>all_hosts_that_were_tried := insert (host params) (all_hosts_that_were_tried b1)\<rparr>;
          c = connections_created b2
      in log_call (Pika_SelectConnection (host params) c)
           (b2\<lparr>thread := (thread b2)\<lparr>connection := Some c\<rparr>,
                connections_created := Suc c\<rparr>))"

definition trigger_connection_to_rabbit_etc :: "ConnectionBuilder \<Rightarrow> ConnectionBuilder" where
  "trigger_connection_to_rabbit_etc b =
     please_open_connection
       (b\<lparr>statemachine := set_to_waiting_to_be_available (statemachine b)\<rparr>)"

text \<open>
  \<open>ioloop.start()\<close> blocks while the loop runs; what the first call in the \<open>try\<close>
  block does is given from outside: it runs on (its callbacks reach the builder as
  separate handler calls), or it raises ProbableAuthenticationError, or it raises another
  exception (class name, message), in both cases before a callback has run.
\<close>

datatype ioloop_outcome =
    Ioloop_runs
  | Raises_ProbableAuthenticationError
  | Raises_Exception string string

definition start_waiting_for_events :: "ConnectionBuilder \<Rightarrow> ioloop_outcome \<Rightarrow> result" where
  "start_waiting_for_events b outcome =
     (case connection (thread b) of
        None \<Rightarrow> Inr b
      | Some c \<Rightarrow>
          (let b1 = log_call Thread_tell_publisher_to_stop_waiting_for_thread_to_accept_events b;
               b2 = log_call Thread_continue_gently_closing_if_applicable b1;
               b3 = log_call (Ioloop_start c) b2
           in case outcome of
                Ioloop_runs \<Rightarrow> Inr b3
              | Raises_ProbableAuthenticationError \<Rightarrow>
                  (case time_passed b3 of
                     Inl e \<Rightarrow> Inl (e, b3)
                   | Inr passed \<Rightarrow>
                       (let b4 = b3\<lparr>statemachine := set_to_waiting_to_be_available (statemachine b3)\<rparr>;
                            b5 = b4\<lparr>statemachine := (statemachine b4)\<lparr>detail_authentication_exception := True\<rparr>\<rparr>
                        in case on_connection_error b5 c ''ProbableAuthenticationError issued by pika'' of
                             Inl e \<Rightarrow> Inl e
                           | Inr b6 \<Rightarrow>
                               thread_connection b6 ''ioloop''
                                 (\<lambda>c'. Inr (log_call (Ioloop_start c') b6))))
              | Raises_Exception class_name message \<Rightarrow>
                  (let b4 = b3\<lparr>statemachine := set_to_waiting_to_be_available (statemachine b3)\<rparr>;
                       errorname = ''Unexpected error ('' @ class_name @ '': '' @ message @ '')''
                   in case on_connection_error b4 c errorname of
                        Inl e \<Rightarrow> Inl e
                      | Inr b5 \<Rightarrow>
                          thread_connection b5 ''ioloop''
                            (\<lambda>c'. Inr (log_call (Ioloop_start c') b5)))))"

definition first_connection :: "ConnectionBuilder \<Rightarrow> ioloop_outcome \<Rightarrow> result" where
  "first_connection b outcome =
     start_waiting_for_events (trigger_connection_to_rabbit_etc b) outcome"

subsection \<open>Opening the channel\<close>

definition please_open_rabbit_channel :: "ConnectionBuilder \<Rightarrow> result" where
  "please_open_rabbit_channel b =
     thread_connection b ''channel'' (\<lambda>c. Inr (log_call (Connection_channel c) b))"


text \<open>
  \<open>int(num*1.1)\<close> is computed in binary floating point by Python; for every number of
  queued messages a process can hold it is the integer part of 11 * num / 10, which is
  what the model uses. No statement below depends on this number.
\<close>

definition check_for_already_arrived_messages_and_publish_them ::
  "ConnectionBuilder \<Rightarrow> ConnectionBuilder" where
  "check_for_already_arrived_messages_and_publish_them b =
     (let num = get_num_unpublished (thread b) in
      if num > 0 then
        b\<lparr>calls := calls b @ replicate ((11 * num) div 10) Thread_add_event_publish_message\<rparr>
      else b)"

definition make_ready_for_publishing :: "ConnectionBuilder \<Rightarrow> ConnectionBuilder" where
  "make_ready_for_publishing b =
     (let b1 = (if channel (thread b) = None
                then b\<lparr>statemachine := set_to_permanently_unavailable (statemachine b)\<rparr>
                else b);
          b2 = (if connection (thread b1) = None
                then b1\<lparr>statemachine := set_to_permanently_unavailable (statemachine b1)\<rparr>
                else b1)
      in if is_WAITING_TO_BE_AVAILABLE (statemachine b2) then
           check_for_already_arrived_messages_and_publish_them
             (b2\<lparr>statemachine := set_to_available (statemachine b2)\<rparr>)
         else if is_AVAILABLE_BUT_WANTS_TO_STOP (statemachine b2) then
           check_for_already_arrived_messages_and_publish_them b2
         else if is_PERMANENTLY_UNAVAILABLE (statemachine b2) then
           (if get_detail_closed_by_publisher (statemachine b2) then
              log_call (Shutter_safety_finish ''closed before connection was ready. reclosing.'') b2
            else b2)
         else b2)"

definition add_on_channel_close_callback :: "ConnectionBuilder \<Rightarrow> result" where
  "add_on_channel_close_callback b =
     (case channel (thread b) of
        None \<Rightarrow> Inl (AttributeError ''add_on_close_callback'', b)
      | Some ch \<Rightarrow> Inr (log_call (Channel_add_on_close_callback ch) b))"

definition add_on_return_callback :: "ConnectionBuilder \<Rightarrow> result" where
  "add_on_return_callback b =
     (case channel (thread b) of
        None \<Rightarrow> Inl (AttributeError ''add_on_return_callback'', b)
      | Some ch \<Rightarrow> Inr (log_call (Channel_add_on_return_callback ch) b))"

definition make_channel_confirm_delivery :: "ConnectionBuilder \<Rightarrow> result" where
  "make_channel_confirm_delivery b =
     (case channel (thread b) of
        None \<Rightarrow> Inl (AttributeError ''confirm_delivery'', b)
      | Some ch \<Rightarrow> Inr (log_call (Channel_confirm_delivery ch) b))"

definition and_then :: "result \<Rightarrow> (ConnectionBuilder \<Rightarrow> result) \<Rightarrow> result" where
  "and_then r f = (case r of Inl e \<Rightarrow> Inl e | Inr b \<Rightarrow> f b)"

definition on_channel_open :: "ConnectionBuilder \<Rightarrow> nat \<Rightarrow> result" where
  "on_channel_open b channel' =
     (case time_passed b of
        Inl e \<Rightarrow> Inl (e, b)
      | Inr passed \<Rightarrow>
          (let b1 = b\<lparr>thread := (thread b)\<lparr>channel := Some channel'\<rparr>\<rparr>;
               b2 = b1\<lparr>reconnect_counter := 0\<rparr>
           in and_then (add_on_channel_close_callback b2) (\<lambda>b3.
              and_then (add_on_return_callback b3) (\<lambda>b4.
              and_then (make_channel_confirm_delivery b4) (\<lambda>b5.
              Inr (make_ready_for_publishing b5))))))"

subsection \<open>Preparing a new channel: rescue of the unconfirmed messages\<close>

definition prepare_republication_of_unconfirmed :: "ConnectionBuilder \<Rightarrow> ConnectionBuilder" where
  "prepare_republication_of_unconfirmed b =
     (let rescued_messages = get_unconfirmed_messages_as_list_copy_during_lifetime (thread b);
          b1 = log_call Thread_get_unconfirmed_messages_as_list_copy_during_lifetime b
      in if length rescued_messages > 0 then
           log_call (Thread_send_many_messages rescued_messages)
             (b1\<lparr>thread := send_many_messages rescued_messages (thread b1)\<rparr>)
         else b1)"

definition prepare_channel_reopen :: "ConnectionBuilder \<Rightarrow> string \<Rightarrow> ConnectionBuilder" where
  "prepare_channel_reopen b operation_string =
     (let b1 = log_call Thread_reset_delivery_number
                 (b\<lparr>thread := reset_delivery_number (thread b)\<rparr>);
          b2 = prepare_republication_of_unconfirmed b1
      in log_call Thread_reset_unconfirmed_messages_and_delivery_tags
           (b2\<lparr>thread := reset_unconfirmed_messages_and_delivery_tags (thread b2)\<rparr>))"

text \<open>
  The rescue step in the order the specification lists its parts (section 4.4): (a)
  extract, (b) clear the mapping, (c) put the extracted messages back, (d) reset the
  counter. It is compared with \<open>prepare_channel_reopen\<close> below.
\<close>

definition rescue_in_specified_order :: "ConnectionBuilder \<Rightarrow> ConnectionBuilder" where
  "rescue_in_specified_order b =
     (let rescued_messages = get_unconfirmed_messages_as_list_copy_during_lifetime (thread b);
          a = log_call Thread_get_unconfirmed_messages_as_list_copy_during_lifetime b;
          b' = log_call Thread_reset_unconfirmed_messages_and_delivery_tags
                 (a\<lparr>thread := reset_unconfirmed_messages_and_delivery_tags (thread a)\<rparr>);
          c = (if length rescued_messages > 0 then
                 log_call (Thread_send_many_messages rescued_messages)
                   (b'\<lparr>thread := send_many_messages rescued_messages (thread b')\<rparr>)
               else b')
      in log_call Thread_reset_delivery_number
           (c\<lparr>thread := reset_delivery_number (thread c)\<rparr>))"

subsection \<open>Channel closed\<close>

definition apostrophe :: char where
  "apostrophe = CHR 0x27"

definition no_fallback_exchange_text :: string where
  "no_fallback_exchange_text =
     ''NOT_FOUND - no exchange '' @ [apostrophe] @ ''FALLBACK'' @ [apostrophe]"

definition use_different_exchange_and_reopen_channel :: "ConnectionBuilder \<Rightarrow> result" where
  "use_different_exchange_and_reopen_channel b =
     (let b1 = b\<lparr>statemachine := set_to_waiting_to_be_available (statemachine b)\<rparr>;
          b2 = log_call (Thread_set_exchange_name (fallback_exchange_name b1))
                 (b1\<lparr>thread := set_exchange_name (fallback_exchange_name b1) (thread b1)\<rparr>);
          b3 = prepare_channel_reopen b2 ''Channel reopen'';
          b4 = b3\<lparr>statemachine := set_to_waiting_to_be_available (statemachine b3)\<rparr>
      in please_open_rabbit_channel b4)"

definition on_channel_closed :: "ConnectionBuilder \<Rightarrow> nat \<Rightarrow> int \<Rightarrow> string \<Rightarrow> result" where
  "on_channel_closed b channel' reply_code reply_text =
     (if is_PERMANENTLY_UNAVAILABLE (statemachine b) then
        Inr b
      else if reply_code = 404 \<and> str_in no_fallback_exchange_text reply_text then
        thread_connection b ''close'' (\<lambda>c. Inr (log_call (Connection_close c) b))
      else if reply_code = 404 then
        use_different_exchange_and_reopen_channel b
      else
        thread_connection b ''close'' (\<lambda>c. Inr (log_call (Connection_close c) b)))"

subsection \<open>Connection closed\<close>

definition was_permanent_error :: "rabbit_thread \<Rightarrow> int \<Rightarrow> string \<Rightarrow> bool" where
  "was_permanent_error t reply_code reply_text =
     (if str_in (ERROR_TEXT_CONNECTION_PERMANENT_ERROR t) reply_text then True else False)"

definition was_forced_user_shutdown :: "rabbit_thread \<Rightarrow> int \<Rightarrow> string \<Rightarrow> bool" where
  "was_forced_user_shutdown t reply_code reply_text =
     (if reply_code = ERROR_CODE_CONNECTION_CLOSED_BY_USER t \<and>
         str_in (ERROR_TEXT_CONNECTION_FORCE_CLOSED t) reply_text
      then True else False)"

definition was_gentle_user_shutdown :: "rabbit_thread \<Rightarrow> int \<Rightarrow> string \<Rightarrow> bool" where
  "was_gentle_user_shutdown t reply_code reply_text =
     (if reply_code = ERROR_CODE_CONNECTION_CLOSED_BY_USER t \<and>
         str_in (ERROR_TEXT_CONNECTION_NORMAL_SHUTDOWN t) reply_text
      then True else False)"

definition was_user_shutdown :: "rabbit_thread \<Rightarrow> int \<Rightarrow> string \<Rightarrow> bool" where
  "was_user_shutdown t reply_code reply_text =
     (if was_forced_user_shutdown t reply_code reply_text then True
      else if was_gentle_user_shutdown t reply_code reply_text then True
      else False)"

definition make_permanently_closed_by_user :: "ConnectionBuilder \<Rightarrow> result" where
  "make_permanently_closed_by_user b =
     (let b1 = b\<lparr>statemachine := set_to_permanently_unavailable (statemachine b)\<rparr>
      in thread_connection b1 ''ioloop'' (\<lambda>c. Inr (log_call (Ioloop_stop c) b1)))"

definition make_permanently_closed_by_error :: "ConnectionBuilder \<Rightarrow> nat \<Rightarrow> string \<Rightarrow> result" where
  "make_permanently_closed_by_error b connection' reply_text =
     (let b1 = b\<lparr>statemachine := set_to_permanently_unavailable (statemachine b)\<rparr>;
          b2 = log_call Thread_unblock_events b1
      in thread_connection b2 ''ioloop'' (\<lambda>c. Inr (log_call (Ioloop_stop c) b2)))"

definition on_connection_closed :: "ConnectionBuilder \<Rightarrow> nat \<Rightarrow> int \<Rightarrow> string \<Rightarrow> result" where
  "on_connection_closed b connection' reply_code reply_text =
     (let b1 = b\<lparr>thread := (thread b)\<lparr>channel := None\<rparr>\<rparr>
      in if was_user_shutdown (thread b1) reply_code reply_text then
           make_permanently_closed_by_user b1
         else if was_permanent_error (thread b1) reply_code reply_text then
           make_permanently_closed_by_error b1 connection' reply_text
         else
           on_connection_error b1 connection' reply_text)"

subsection \<open>Reconnect\<close>

definition reconnect :: "ConnectionBuilder \<Rightarrow> ioloop_outcome \<Rightarrow> result" where
  "reconnect b outcome =
     (let b1 = prepare_channel_reopen b ''Reconnect''
      in thread_connection b1 ''ioloop''
           (\<lambda>c. first_connection (log_call (Ioloop_stop c) b1) outcome))"

section \<open>What the methods do, as equations\<close>

lemmas thread_method_defs =
  set_exchange_name_def get_num_unpublished_def reset_delivery_number_def
  get_unconfirmed_messages_as_list_copy_during_lifetime_def send_many_messages_def
  reset_unconfirmed_messages_and_delivery_tags_def

lemmas statemachine_defs =
  set_to_waiting_to_be_available_def set_to_available_def set_to_permanently_unavailable_def
  set_to_force_finished_def is_terminal_def
  is_WAITING_TO_BE_AVAILABLE_def is_AVAILABLE_BUT_WANTS_TO_STOP_def
  is_PERMANENTLY_UNAVAILABLE_def is_FORCE_FINISHED_def get_detail_closed_by_publisher_def

text \<open>
  The calls of the rescue step on a thread, and the thread it leaves behind.
\<close>

definition rescue_calls :: "rabbit_thread \<Rightarrow> call list" where
  "rescue_calls t =
     [Thread_reset_delivery_number, Thread_get_unconfirmed_messages_as_list_copy_during_lifetime] @
     (if unconfirmed_messages t = [] then []
      else [Thread_send_many_messages (map snd (unconfirmed_messages t))]) @
     [Thread_reset_unconfirmed_messages_and_delivery_tags]"

definition rescued_thread :: "rabbit_thread \<Rightarrow> rabbit_thread" where
  "rescued_thread t =
     t\<lparr>unpublished_messages := map snd (unconfirmed_messages t) @ unpublished_messages t,
       unconfirmed_messages := [],
       delivery_number := initial_delivery_number\<rparr>"

lemma prepare_channel_reopen_eq:
  "prepare_channel_reopen b s =
     b\<lparr>thread := rescued_thread (thread b), calls := calls b @ rescue_calls (thread b)\<rparr>"
  by (simp add: prepare_channel_reopen_def prepare_republication_of_unconfirmed_def
      log_call_def Let_def thread_method_defs rescue_calls_def rescued_thread_def)

lemma first_connection_runs:
  "first_connection b Ioloop_runs =
     Inr (b\<lparr>statemachine := set_to_waiting_to_be_available (statemachine b),
            start_connect_time := Some (now b),
            all_hosts_that_were_tried :=
              insert (host (current (node_manager b))) (all_hosts_that_were_tried b),
            thread := (thread b)\<lparr>connection := Some (connections_created b)\<rparr>,
            connections_created := Suc (connections_created b),
            calls := calls b @
              [Pika_SelectConnection (host (current (node_manager b))) (connections_created b),
               Thread_tell_publisher_to_stop_waiting_for_thread_to_accept_events,
               Thread_continue_gently_closing_if_applicable,
               Ioloop_start (connections_created b)]\<rparr>)"
  by (simp add: first_connection_def start_waiting_for_events_def
      trigger_connection_to_rabbit_etc_def please_open_connection_def
      get_connection_parameters_def log_call_def Let_def)

lemma reconnect_runs:
  "reconnect b Ioloop_runs =
     (case connection (thread b) of
        None \<Rightarrow> Inl (AttributeError ''ioloop'', prepare_channel_reopen b ''Reconnect'')
      | Some c \<Rightarrow>
          first_connection (log_call (Ioloop_stop c) (prepare_channel_reopen b ''Reconnect''))
            Ioloop_runs)"
  by (simp add: reconnect_def thread_connection_def Let_def prepare_channel_reopen_eq
        rescued_thread_def split: option.splits)

lemma reconnect_keeps:
  "reconnect b1 Ioloop_runs = Inr b2 \<Longrightarrow>
     node_manager b2 = node_manager b1 \<and> reconnect_counter b2 = reconnect_counter b1 \<and>
     max_reconnection_tries b2 = max_reconnection_tries b1"
  by (auto simp: reconnect_runs first_connection_runs prepare_channel_reopen_eq log_call_def
      split: option.splits)

lemma on_connection_error_decreases:
  "on_connection_error b c msg = Inr b1 \<Longrightarrow>
     max_reconnection_tries b1 = max_reconnection_tries b \<and>
     ((reconnect_counter b1 = reconnect_counter b \<and>
       length (untried (node_manager b1)) < length (untried (node_manager b))) \<or>
      (reconnect_counter b1 = reconnect_counter b + 1 \<and>
       reconnect_counter b1 \<le> max_reconnection_tries b))"
  by (auto simp: on_connection_error_def wait_and_trigger_reconnection_def time_passed_def
      log_call_def Let_def has_more_urls_def get_num_left_urls_def set_next_host_def
      split: option.splits if_splits sum.splits list.splits)

section \<open>A broker that refuses every connection\<close>

text \<open>
  Every connection attempt fails: pika answers each connection object with the
  open-error callback \<open>on_connection_error\<close>, and when the handler has armed its
  timer, the timer fires and calls \<open>reconnect\<close>, whose new connection fails in turn.
  The run ends when a handler raises. Without a connection object there is no attempt
  that could fail, and the run stops where it is.
\<close>

function all_attempts_fail :: "string \<Rightarrow> ConnectionBuilder \<Rightarrow> result" where
  "all_attempts_fail msg b =
     (case connection (thread b) of
        None \<Rightarrow> Inr b
      | Some c \<Rightarrow>
          (case on_connection_error b c msg of
             Inl e \<Rightarrow> Inl e
           | Inr b1 \<Rightarrow>
               (case reconnect b1 Ioloop_runs of
                  Inl e \<Rightarrow> Inl e
                | Inr b2 \<Rightarrow> all_attempts_fail msg b2)))"
  by pat_completeness auto

text \<open>
  The run ends: an error either uses up an untried endpoint of the cycle or a
  reconnection try, and a reconnect changes neither.
\<close>

termination all_attempts_fail
proof (relation "measures [\<lambda>(msg, b). nat (max_reconnection_tries b + 1 - reconnect_counter b),
                           \<lambda>(msg, b). length (untried (node_manager b))]", goal_cases)
  case 1
  then show ?case by simp
next
  case (2 msg b c b1 b2)
  from reconnect_keeps[OF 2(3)] on_connection_error_decreases[OF 2(2)]
  show ?case by auto
qed

declare all_attempts_fail.simps [simp del]

text \<open>
  What an observer of the run sees: the hosts of the connection objects made, and the
  seconds of the timers armed, in the order of the calls.
\<close>

datatype step = Attempt string | Wait int

fun schedule :: "call list \<Rightarrow> step list" where
  "schedule [] = []"
| "schedule (Pika_SelectConnection h c # cs) = Attempt h # schedule cs"
| "schedule (Connection_add_timeout c w # cs) = Wait w # schedule cs"
| "schedule (x # cs) = schedule cs"

fun attempted_hosts :: "call list \<Rightarrow> string list" where
  "attempted_hosts [] = []"
| "attempted_hosts (Pika_SelectConnection h c # cs) = h # attempted_hosts cs"
| "attempted_hosts (x # cs) = attempted_hosts cs"

text \<open>
  One cycle tries each host once, in the configured order, with no wait in between;
  consecutive cycles are separated by one wait of \<open>w\<close> seconds.
\<close>

fun one_cycle :: "string list \<Rightarrow> step list" where
  "one_cycle [] = []"
| "one_cycle [h] = [Attempt h]"
| "one_cycle (h # h' # hs) = Attempt h # Wait 0 # one_cycle (h' # hs)"

fun cycles :: "int \<Rightarrow> string list \<Rightarrow> nat \<Rightarrow> step list" where
  "cycles w hs 0 = []"
| "cycles w hs (Suc 0) = one_cycle hs"
| "cycles w hs (Suc (Suc n)) = one_cycle hs @ Wait w # cycles w hs (Suc n)"

text \<open>
  An attempt is pending when there is a connection object, its start time is recorded and
  no force-finish has been issued: the states in which pika may call the open-error
  callback.
\<close>

definition attempt_pending :: "ConnectionBuilder \<Rightarrow> bool" where
  "attempt_pending b =
     (connection (thread b) \<noteq> None \<and> start_connect_time b \<noteq> None \<and>
      \<not> is_FORCE_FINISHED (statemachine b))"

text \<open>
  The remainder of a cycle: each further host is tried after a wait of 0 seconds.
  Further cycles: each begins with one wait of \<open>w\<close> seconds.
\<close>

definition rest_of_cycle :: "string list \<Rightarrow> step list" where
  "rest_of_cycle hs = concat (map (\<lambda>h. [Wait 0, Attempt h]) hs)"

definition further_cycles :: "int \<Rightarrow> string list \<Rightarrow> nat \<Rightarrow> step list" where
  "further_cycles w hs k = concat (replicate k (Wait w # one_cycle hs))"

text \<open>
  The whole run against a broker that refuses every connection, from the first
  connection on.
\<close>

definition refused_everywhere :: "string \<Rightarrow> ConnectionBuilder \<Rightarrow> result" where
  "refused_everywhere msg b =
     (case first_connection b Ioloop_runs of
        Inl e \<Rightarrow> Inl e
      | Inr b1 \<Rightarrow> all_attempts_fail msg b1)"

fun attempts_in :: "step list \<Rightarrow> nat" where
  "attempts_in [] = 0"
| "attempts_in (Attempt h # ss) = Suc (attempts_in ss)"
| "attempts_in (Wait w # ss) = attempts_in ss"

text \<open>The state a handler leaves behind, whether it returns or raises.\<close>

definition state_after :: "result \<Rightarrow> lifecycle" where
  "state_after r =
     (case r of
        Inl (e, b) \<Rightarrow> state (statemachine b)
      | Inr b \<Rightarrow> state (statemachine b))"

section \<open>Example values\<close>

definition example_thread :: rabbit_thread where
  "example_thread =
     \<lparr>connection = None,
      channel = None,
      ERROR_CODE_CONNECTION_CLOSED_BY_USER = 999,
      ERROR_TEXT_CONNECTION_FORCE_CLOSED = ''(forced finish)'',
      ERROR_TEXT_CONNECTION_NORMAL_SHUTDOWN = ''(not reopen)'',
      ERROR_TEXT_CONNECTION_PERMANENT_ERROR = ''(permanent error)'',
      exchange_name = ''primary'',
      unpublished_messages = [],
      unconfirmed_messages = [],
      delivery_number = 1\<rparr>"

definition example_statemachine :: statemachine where
  "example_statemachine =
     \<lparr>state = INITIALIZING,
      detail_closed_by_publisher = False,
      detail_could_not_connect = False,
      detail_authentication_exception = False\<rparr>"

definition three_hosts :: nodemanager where
  "three_hosts =
     \<lparr>tried = [], current = \<lparr>host = ''h1''\<rparr>, untried = [\<lparr>host = ''h2''\<rparr>, \<lparr>host = ''h3''\<rparr>]\<rparr>"

text \<open>
  The builder \<open>__init__\<close> would make of these arguments if the defaults module gave
  \<open>tries\<close> and \<open>seconds\<close> under the two names it reads.
\<close>

definition example_builder :: "int \<Rightarrow> int \<Rightarrow> ConnectionBuilder" where
  "example_builder tries seconds =
     \<lparr>thread = example_thread,
      statemachine = example_statemachine,
      confirmer = 0,
      returnhandler = 0,
      shutter = 0,
      node_manager = three_hosts,
      reconnect_counter = 0,
      max_reconnection_tries = tries,
      wait_seconds_before_reconnect = seconds,
      all_hosts_that_were_tried = {},
      start_connect_time = None,
      fallback_exchange_name = ''FALLBACK'',
      now = 0,
      connections_created = 0,
      calls = []\<rparr>"

text \<open>
  A builder with an open connection and channel, two messages in flight (delivery sequence
  numbers 7 and 8) and one pending.
\<close>

definition example_connected :: ConnectionBuilder where
  "example_connected =
     (example_builder 2 5)
       \<lparr>thread := example_thread
          \<lparr>connection := Some 0,
           channel := Some 1,
           unpublished_messages := [''m9''],
           unconfirmed_messages := [(7, ''m7''), (8, ''m8'')],
           delivery_number := 9\<rparr>,
        statemachine := example_statemachine\<lparr>state := AVAILABLE\<rparr>,
        start_connect_time := Some 0,
        all_hosts_that_were_tried := {''h1''},
        connections_created := 1\<rparr>"

definition no_primary_exchange_text :: string where
  "no_primary_exchange_text =
     ''NOT_FOUND - no exchange '' @ [apostrophe] @ ''primary'' @ [apostrophe]"

text \<open>
  The same builder after the user closed it, after a force-finish, and at the end of a cycle
  with all its reconnection tries used.
\<close>

definition example_closed_by_user :: ConnectionBuilder where
  "example_closed_by_user =
     example_connected
       \<lparr>statemachine := example_statemachine
          \<lparr>state := PERMANENTLY_UNAVAILABLE, detail_closed_by_publisher := True\<rparr>\<rparr>"

definition example_force_finished :: ConnectionBuilder where
  "example_force_finished =
     example_connected\<lparr>statemachine := example_statemachine\<lparr>state := FORCE_FINISHED\<rparr>\<rparr>"

definition example_tries_used_up :: ConnectionBuilder where
  "example_tries_used_up =
     example_connected
       \<lparr>node_manager :=
          \<lparr>tried = [\<lparr>host = ''h1''\<rparr>, \<lparr>host = ''h2''\<rparr>], current = \<lparr>host = ''h3''\<rparr>,
           untried = []\<rparr>,
        reconnect_counter := 2,
        statemachine := example_statemachine\<lparr>state := WAITING_TO_BE_AVAILABLE\<rparr>\<rparr>"

text \<open>
  A builder whose first connection object has just been made, before and after the ioloop
  was started.
\<close>

definition example_connecting :: ConnectionBuilder where
  "example_connecting =
     (example_builder 2 5)
       \<lparr>thread := example_thread\<lparr>connection := Some 0\<rparr>,
        statemachine := example_statemachine\<lparr>state := WAITING_TO_BE_AVAILABLE\<rparr>,
        start_connect_time := Some 0,
        all_hosts_that_were_tried := {''h1''},
        connections_created := 1,
        calls := [Pika_SelectConnection ''h1'' 0]\<rparr>"

definition example_pending :: ConnectionBuilder where
  "example_pending =
     example_connecting
       \<lparr>calls := [Pika_SelectConnection ''h1'' 0,
                  Thread_tell_publisher_to_stop_waiting_for_thread_to_accept_events,
                  Thread_continue_gently_closing_if_applicable,
                  Ioloop_start 0]\<rparr>"

lemmas example_defs =
  example_pending_def example_connecting_def example_tries_used_up_def
  example_force_finished_def example_closed_by_user_def example_connected_def
  example_builder_def example_thread_def example_statemachine_def three_hosts_def

section \<open>The run against a broker that refuses every connection\<close>

lemma is_FORCE_FINISHED_set_to_waiting [simp]:
  "is_FORCE_FINISHED (set_to_waiting_to_be_available sm) = is_FORCE_FINISHED sm"
  by (simp add: set_to_waiting_to_be_available_def is_FORCE_FINISHED_def is_terminal_def)

lemma state_set_to_waiting:
  "state (set_to_waiting_to_be_available sm) =
     (if is_terminal (state sm) then state sm else WAITING_TO_BE_AVAILABLE)"
  by (simp add: set_to_waiting_to_be_available_def)

lemma schedule_append: "schedule (xs @ ys) = schedule xs @ schedule ys"
  by (induction xs rule: schedule.induct) simp_all

lemma schedule_rescue_calls: "schedule (rescue_calls t) = []"
  by (simp add: rescue_calls_def)

lemma on_connection_error_advance:
  assumes "start_connect_time b \<noteq> None" "\<not> is_FORCE_FINISHED (statemachine b)"
    and "untried (node_manager b) = p # ps"
  shows "on_connection_error b c msg =
     Inr (b\<lparr>node_manager := \<lparr>tried = tried (node_manager b) @ [current (node_manager b)],
                              current = p, untried = ps\<rparr>,
            statemachine := set_to_waiting_to_be_available (statemachine b),
            calls := calls b @ [Connection_add_timeout c 0]\<rparr>)"
  using assms
  by (auto simp: on_connection_error_def wait_and_trigger_reconnection_def time_passed_def
      log_call_def has_more_urls_def get_num_left_urls_def set_next_host_def)

lemma on_connection_error_next_cycle:
  assumes "start_connect_time b \<noteq> None" "\<not> is_FORCE_FINISHED (statemachine b)"
    and "untried (node_manager b) = []"
    and "reconnect_counter b + 1 \<le> max_reconnection_tries b"
  shows "on_connection_error b c msg =
     Inr (b\<lparr>reconnect_counter := reconnect_counter b + 1,
            node_manager := reset_nodes (node_manager b),
            statemachine := set_to_waiting_to_be_available (statemachine b),
            calls := calls b @ [Connection_add_timeout c (wait_seconds_before_reconnect b)]\<rparr>)"
  using assms
  by (auto simp: on_connection_error_def wait_and_trigger_reconnection_def time_passed_def
      log_call_def has_more_urls_def get_num_left_urls_def Let_def)

lemma on_connection_error_gives_up:
  assumes "start_connect_time b \<noteq> None" "\<not> is_FORCE_FINISHED (statemachine b)"
    and "untried (node_manager b) = []"
    and "\<not> reconnect_counter b + 1 \<le> max_reconnection_tries b"
  shows "on_connection_error b c msg =
     Inl (PIDServerException
            (Gave_up_after_tries (all_hosts_that_were_tried b) (max_reconnection_tries b)),
          b\<lparr>reconnect_counter := reconnect_counter b + 1,
            statemachine := (statemachine b)\<lparr>state := PERMANENTLY_UNAVAILABLE,
                                               detail_could_not_connect := True\<rparr>\<rparr>)"
  using assms
  by (auto simp: on_connection_error_def time_passed_def
      has_more_urls_def get_num_left_urls_def Let_def statemachine_defs)

text \<open>What a reconnect after an armed timer leaves behind.\<close>

lemma reconnect_after_timer:
  assumes "connection (thread b) = Some c" and "\<not> is_FORCE_FINISHED (statemachine b)"
  shows "\<exists>b'. reconnect b Ioloop_runs = Inr b' \<and> attempt_pending b' \<and>
           node_manager b' = node_manager b \<and>
           reconnect_counter b' = reconnect_counter b \<and>
           max_reconnection_tries b' = max_reconnection_tries b \<and>
           wait_seconds_before_reconnect b' = wait_seconds_before_reconnect b \<and>
           schedule (calls b') =
             schedule (calls b) @ [Attempt (host (current (node_manager b)))]"
  using assms
  by (simp add: reconnect_runs first_connection_runs prepare_channel_reopen_eq
      log_call_def attempt_pending_def schedule_append schedule_rescue_calls)

lemma run_advance:
  assumes "attempt_pending b" and "untried (node_manager b) = p # ps"
  shows "\<exists>b'. all_attempts_fail msg b = all_attempts_fail msg b' \<and> attempt_pending b' \<and>
           node_manager b' = \<lparr>tried = tried (node_manager b) @ [current (node_manager b)],
                               current = p, untried = ps\<rparr> \<and>
           reconnect_counter b' = reconnect_counter b \<and>
           max_reconnection_tries b' = max_reconnection_tries b \<and>
           wait_seconds_before_reconnect b' = wait_seconds_before_reconnect b \<and>
           schedule (calls b') = schedule (calls b) @ [Wait 0, Attempt (host p)]"
proof -
  from assms(1) obtain c where c: "connection (thread b) = Some c"
    by (auto simp: attempt_pending_def)
  define b1 where "b1 =
     b\<lparr>node_manager := \<lparr>tried = tried (node_manager b) @ [current (node_manager b)],
                              current = p, untried = ps\<rparr>,
            statemachine := set_to_waiting_to_be_available (statemachine b),
            calls := calls b @ [Connection_add_timeout c 0]\<rparr>"
  from assms have e: "on_connection_error b c msg = Inr b1"
    unfolding b1_def by (intro on_connection_error_advance) (simp_all add: attempt_pending_def)
  have "connection (thread b1) = Some c" "\<not> is_FORCE_FINISHED (statemachine b1)"
    using assms(1) by (simp_all add: b1_def c attempt_pending_def)
  from reconnect_after_timer[OF this] obtain b2 where
    r: "reconnect b1 Ioloop_runs = Inr b2" and p: "attempt_pending b2"
    and k: "node_manager b2 = node_manager b1" "reconnect_counter b2 = reconnect_counter b1"
      "max_reconnection_tries b2 = max_reconnection_tries b1"
      "wait_seconds_before_reconnect b2 = wait_seconds_before_reconnect b1"
      "schedule (calls b2) = schedule (calls b1) @ [Attempt (host (current (node_manager b1)))]"
    by blast
  have "all_attempts_fail msg b = all_attempts_fail msg b2"
    by (subst all_attempts_fail.simps) (simp add: c e r)
  with p k show ?thesis
    by (intro exI[of _ b2]) (simp add: b1_def schedule_append)
qed

lemma run_next_cycle:
  assumes "attempt_pending b" and "untried (node_manager b) = []"
    and "reconnect_counter b + 1 \<le> max_reconnection_tries b"
  shows "\<exists>b'. all_attempts_fail msg b = all_attempts_fail msg b' \<and> attempt_pending b' \<and>
           node_manager b' = reset_nodes (node_manager b) \<and>
           reconnect_counter b' = reconnect_counter b + 1 \<and>
           max_reconnection_tries b' = max_reconnection_tries b \<and>
           wait_seconds_before_reconnect b' = wait_seconds_before_reconnect b \<and>
           schedule (calls b') = schedule (calls b) @
             [Wait (wait_seconds_before_reconnect b),
              Attempt (host (current (reset_nodes (node_manager b))))]"
proof -
  from assms(1) obtain c where c: "connection (thread b) = Some c"
    by (auto simp: attempt_pending_def)
  define b1 where "b1 =
     b\<lparr>reconnect_counter := reconnect_counter b + 1,
            node_manager := reset_nodes (node_manager b),
            statemachine := set_to_waiting_to_be_available (statemachine b),
            calls := calls b @ [Connection_add_timeout c (wait_seconds_before_reconnect b)]\<rparr>"
  from assms have e: "on_connection_error b c msg = Inr b1"
    unfolding b1_def by (intro on_connection_error_next_cycle) (simp_all add: attempt_pending_def)
  have "connection (thread b1) = Some c" "\<not> is_FORCE_FINISHED (statemachine b1)"
    using assms(1) by (simp_all add: b1_def c attempt_pending_def)
  from reconnect_after_timer[OF this] obtain b2 where
    r: "reconnect b1 Ioloop_runs = Inr b2" and p: "attempt_pending b2"
    and k: "node_manager b2 = node_manager b1" "reconnect_counter b2 = reconnect_counter b1"
      "max_reconnection_tries b2 = max_reconnection_tries b1"
      "wait_seconds_before_reconnect b2 = wait_seconds_before_reconnect b1"
      "schedule (calls b2) = schedule (calls b1) @ [Attempt (host (current (node_manager b1)))]"
    by blast
  have "all_attempts_fail msg b = all_attempts_fail msg b2"
    by (subst all_attempts_fail.simps) (simp add: c e r)
  with p k show ?thesis
    by (intro exI[of _ b2]) (simp add: b1_def schedule_append)
qed

lemma run_gives_up:
  assumes "attempt_pending b" and "untried (node_manager b) = []"
    and "\<not> reconnect_counter b + 1 \<le> max_reconnection_tries b"
  shows "all_attempts_fail msg b =
     Inl (PIDServerException
            (Gave_up_after_tries (all_hosts_that_were_tried b) (max_reconnection_tries b)),
          b\<lparr>reconnect_counter := reconnect_counter b + 1,
            statemachine := (statemachine b)\<lparr>state := PERMANENTLY_UNAVAILABLE,
                                               detail_could_not_connect := True\<rparr>\<rparr>)"
proof -
  from assms(1) obtain c where c: "connection (thread b) = Some c"
    by (auto simp: attempt_pending_def)
  from assms have "on_connection_error b c msg =
     Inl (PIDServerException
            (Gave_up_after_tries (all_hosts_that_were_tried b) (max_reconnection_tries b)),
          b\<lparr>reconnect_counter := reconnect_counter b + 1,
            statemachine := (statemachine b)\<lparr>state := PERMANENTLY_UNAVAILABLE,
                                               detail_could_not_connect := True\<rparr>\<rparr>)"
    by (intro on_connection_error_gives_up) (simp_all add: attempt_pending_def)
  then show ?thesis
    by (subst all_attempts_fail.simps) (simp add: c)
qed

lemma run_rest_of_cycle:
  assumes "attempt_pending b" and "untried (node_manager b) = ps"
  shows "\<exists>b'. all_attempts_fail msg b = all_attempts_fail msg b' \<and> attempt_pending b' \<and>
           untried (node_manager b') = [] \<and>
           all_nodes (node_manager b') = all_nodes (node_manager b) \<and>
           reconnect_counter b' = reconnect_counter b \<and>
           max_reconnection_tries b' = max_reconnection_tries b \<and>
           wait_seconds_before_reconnect b' = wait_seconds_before_reconnect b \<and>
           schedule (calls b') = schedule (calls b) @ rest_of_cycle (map host ps)"
  using assms
proof (induction ps arbitrary: b)
  case Nil
  then show ?case by (intro exI[of _ b]) (simp add: rest_of_cycle_def)
next
  case (Cons p ps)
  from run_advance[OF Cons.prems, of msg] obtain b1 where
    s: "all_attempts_fail msg b = all_attempts_fail msg b1" "attempt_pending b1"
      "node_manager b1 = \<lparr>tried = tried (node_manager b) @ [current (node_manager b)],
                               current = p, untried = ps\<rparr>"
      "reconnect_counter b1 = reconnect_counter b"
      "max_reconnection_tries b1 = max_reconnection_tries b"
      "wait_seconds_before_reconnect b1 = wait_seconds_before_reconnect b"
      "schedule (calls b1) = schedule (calls b) @ [Wait 0, Attempt (host p)]"
    by blast
  from s(3) have "untried (node_manager b1) = ps" by simp
  from Cons.IH[OF s(2) this] obtain b2 where
    t: "all_attempts_fail msg b1 = all_attempts_fail msg b2" "attempt_pending b2"
      "untried (node_manager b2) = []"
      "all_nodes (node_manager b2) = all_nodes (node_manager b1)"
      "reconnect_counter b2 = reconnect_counter b1"
      "max_reconnection_tries b2 = max_reconnection_tries b1"
      "wait_seconds_before_reconnect b2 = wait_seconds_before_reconnect b1"
      "schedule (calls b2) = schedule (calls b1) @ rest_of_cycle (map host ps)"
    by blast
  from s(3) Cons.prems(2) have "all_nodes (node_manager b1) = all_nodes (node_manager b)"
    by (simp add: all_nodes_def)
  with s t show ?case
    by (intro exI[of _ b2]) (simp add: rest_of_cycle_def)
qed


lemma one_cycle_Cons: "one_cycle (h # hs) = Attempt h # rest_of_cycle hs"
  by (induction hs arbitrary: h) (simp_all add: rest_of_cycle_def)

lemma reset_nodes_cursor:
  "tried (reset_nodes nm) = [] \<and>
   current (reset_nodes nm) # untried (reset_nodes nm) = all_nodes nm"
  by (cases "tried nm") (simp_all add: reset_nodes_def all_nodes_def)

lemma all_nodes_reset_nodes: "all_nodes (reset_nodes nm) = all_nodes nm"
  using reset_nodes_cursor[of nm] by (simp add: all_nodes_def[of "reset_nodes nm"])

lemma run_from_pending:
  assumes "attempt_pending b" and "nat (max_reconnection_tries b - reconnect_counter b) = k"
  shows "\<exists>b'. all_attempts_fail msg b =
             Inl (PIDServerException
                    (Gave_up_after_tries (all_hosts_that_were_tried b')
                       (max_reconnection_tries b)), b') \<and>
           state (statemachine b') = PERMANENTLY_UNAVAILABLE \<and>
           detail_could_not_connect (statemachine b') \<and>
           schedule (calls b') =
             schedule (calls b) @ rest_of_cycle (map host (untried (node_manager b))) @
             further_cycles (wait_seconds_before_reconnect b)
               (map host (all_nodes (node_manager b))) k"
  using assms
proof (induction k arbitrary: b)
  case 0
  from run_rest_of_cycle[OF "0.prems"(1) refl, of msg] obtain b1 where
    s: "all_attempts_fail msg b = all_attempts_fail msg b1" "attempt_pending b1"
      "untried (node_manager b1) = []"
      "reconnect_counter b1 = reconnect_counter b"
      "max_reconnection_tries b1 = max_reconnection_tries b"
      "schedule (calls b1) =
         schedule (calls b) @ rest_of_cycle (map host (untried (node_manager b)))"
    by blast
  from "0.prems"(2) s(4,5)
  have "\<not> reconnect_counter b1 + 1 \<le> max_reconnection_tries b1" by simp
  from run_gives_up[OF s(2,3) this, of msg] s show ?case
    by (simp add: further_cycles_def)
next
  case (Suc k)
  from run_rest_of_cycle[OF Suc.prems(1) refl, of msg] obtain b1 where
    s: "all_attempts_fail msg b = all_attempts_fail msg b1" "attempt_pending b1"
      "untried (node_manager b1) = []"
      "all_nodes (node_manager b1) = all_nodes (node_manager b)"
      "reconnect_counter b1 = reconnect_counter b"
      "max_reconnection_tries b1 = max_reconnection_tries b"
      "wait_seconds_before_reconnect b1 = wait_seconds_before_reconnect b"
      "schedule (calls b1) =
         schedule (calls b) @ rest_of_cycle (map host (untried (node_manager b)))"
    by blast
  from Suc.prems(2) s(5,6)
  have le: "reconnect_counter b1 + 1 \<le> max_reconnection_tries b1" by simp
  from run_next_cycle[OF s(2,3) le, of msg] obtain b2 where
    t: "all_attempts_fail msg b1 = all_attempts_fail msg b2" "attempt_pending b2"
      "node_manager b2 = reset_nodes (node_manager b1)"
      "reconnect_counter b2 = reconnect_counter b1 + 1"
      "max_reconnection_tries b2 = max_reconnection_tries b1"
      "wait_seconds_before_reconnect b2 = wait_seconds_before_reconnect b1"
      "schedule (calls b2) = schedule (calls b1) @
             [Wait (wait_seconds_before_reconnect b1),
              Attempt (host (current (reset_nodes (node_manager b1))))]"
    by blast
  from Suc.prems(2) s(5,6) t(4,5)
  have "nat (max_reconnection_tries b2 - reconnect_counter b2) = k" by simp
  from Suc.IH[OF t(2) this] obtain b' where
    u: "all_attempts_fail msg b2 =
             Inl (PIDServerException
                    (Gave_up_after_tries (all_hosts_that_were_tried b')
                       (max_reconnection_tries b2)), b')"
      "state (statemachine b') = PERMANENTLY_UNAVAILABLE"
      "detail_could_not_connect (statemachine b')"
      "schedule (calls b') =
             schedule (calls b2) @ rest_of_cycle (map host (untried (node_manager b2))) @
             further_cycles (wait_seconds_before_reconnect b2)
               (map host (all_nodes (node_manager b2))) k"
    by blast
  have cyc: "Attempt (host (current (reset_nodes (node_manager b1)))) #
          rest_of_cycle (map host (untried (reset_nodes (node_manager b1)))) =
        one_cycle (map host (all_nodes (node_manager b)))"
    using reset_nodes_cursor[of "node_manager b1"] s(4)
    by (metis one_cycle_Cons list.simps(9))
  have "schedule (calls b') =
          schedule (calls b) @ rest_of_cycle (map host (untried (node_manager b))) @
          (Wait (wait_seconds_before_reconnect b) #
           one_cycle (map host (all_nodes (node_manager b)))) @
          further_cycles (wait_seconds_before_reconnect b)
            (map host (all_nodes (node_manager b))) k"
    using u(4) t(3,6,7) s(4,7,8) cyc by (simp add: all_nodes_reset_nodes)
  then have "schedule (calls b') =
          schedule (calls b) @ rest_of_cycle (map host (untried (node_manager b))) @
          further_cycles (wait_seconds_before_reconnect b)
            (map host (all_nodes (node_manager b))) (Suc k)"
    by (simp add: further_cycles_def)
  with s(1,6) t(1,5) u(1,2,3) show ?case by auto
qed

lemma cycles_Suc:
  "cycles w hs (Suc n) = one_cycle hs @ further_cycles w hs n"
  by (induction n) (simp_all add: further_cycles_def)

lemma refused_everywhere_schedule:
  assumes "tried (node_manager b) = []" and "reconnect_counter b = 0"
    and "0 \<le> max_reconnection_tries b" and "\<not> is_FORCE_FINISHED (statemachine b)"
  shows "\<exists>b'. refused_everywhere msg b =
             Inl (PIDServerException
                    (Gave_up_after_tries (all_hosts_that_were_tried b')
                       (max_reconnection_tries b)), b') \<and>
           state (statemachine b') = PERMANENTLY_UNAVAILABLE \<and>
           detail_could_not_connect (statemachine b') \<and>
           schedule (calls b') =
             schedule (calls b) @
             cycles (wait_seconds_before_reconnect b) (map host (all_nodes (node_manager b)))
               (Suc (nat (max_reconnection_tries b)))"
proof -
  obtain b1 where f: "first_connection b Ioloop_runs = Inr b1"
    and p: "attempt_pending b1"
    and k: "node_manager b1 = node_manager b" "reconnect_counter b1 = reconnect_counter b"
      "max_reconnection_tries b1 = max_reconnection_tries b"
      "wait_seconds_before_reconnect b1 = wait_seconds_before_reconnect b"
      "schedule (calls b1) = schedule (calls b) @ [Attempt (host (current (node_manager b)))]"
    using assms(4) by (simp add: first_connection_runs attempt_pending_def schedule_append)
  from assms k have "nat (max_reconnection_tries b1 - reconnect_counter b1) =
      nat (max_reconnection_tries b)" by simp
  from run_from_pending[OF p this, of msg] obtain b' where
    u: "all_attempts_fail msg b1 =
             Inl (PIDServerException
                    (Gave_up_after_tries (all_hosts_that_were_tried b')
                       (max_reconnection_tries b1)), b')"
      "state (statemachine b') = PERMANENTLY_UNAVAILABLE"
      "detail_could_not_connect (statemachine b')"
      "schedule (calls b') =
             schedule (calls b1) @ rest_of_cycle (map host (untried (node_manager b1))) @
             further_cycles (wait_seconds_before_reconnect b1)
               (map host (all_nodes (node_manager b1))) (nat (max_reconnection_tries b))"
    by blast
  have "map host (all_nodes (node_manager b)) =
      host (current (node_manager b)) # map host (untried (node_manager b))"
    using assms(1) by (simp add: all_nodes_def)
  then have "schedule (calls b') = schedule (calls b) @
             cycles (wait_seconds_before_reconnect b) (map host (all_nodes (node_manager b)))
               (Suc (nat (max_reconnection_tries b)))"
    using u(4) k by (simp add: cycles_Suc one_cycle_Cons)
  with f u(1,2,3) k(3) show ?thesis
    by (simp add: refused_everywhere_def)
qed

lemma rescue_calls_exchange [simp]:
  "rescue_calls (set_exchange_name n t) = rescue_calls t"
  by (simp add: rescue_calls_def set_exchange_name_def)

lemma attempts_in_append: "attempts_in (xs @ ys) = attempts_in xs + attempts_in ys"
  by (induction xs rule: attempts_in.induct) simp_all

lemma attempts_in_schedule: "attempts_in (schedule cs) = length (attempted_hosts cs)"
  by (induction cs rule: schedule.induct) simp_all

lemma attempts_in_one_cycle: "attempts_in (one_cycle hs) = length hs"
  by (induction hs rule: one_cycle.induct) simp_all

lemma attempts_in_cycles: "attempts_in (cycles w hs n) = length hs * n"
  by (induction w hs n rule: cycles.induct)
     (simp_all add: attempts_in_append attempts_in_one_cycle)

section \<open>Handlers in particular states\<close>

lemma on_connection_error_force_finished:
  assumes "is_FORCE_FINISHED (statemachine b)"
  shows "on_connection_error b connection' msg =
     Inl (case start_connect_time b of
            None \<Rightarrow> TypeError ''unsupported operand type(s) for -''
          | Some t \<Rightarrow> PIDServerException
                        (Gave_up_after_force_finish (all_hosts_that_were_tried b)), b)"
  using assms by (simp add: on_connection_error_def time_passed_def split: option.splits)


lemma check_for_already_arrived_keeps:
  "statemachine (check_for_already_arrived_messages_and_publish_them b) = statemachine b \<and>
   reconnect_counter (check_for_already_arrived_messages_and_publish_them b) = reconnect_counter b \<and>
   max_reconnection_tries (check_for_already_arrived_messages_and_publish_them b) =
     max_reconnection_tries b \<and>
   node_manager (check_for_already_arrived_messages_and_publish_them b) = node_manager b \<and>
   start_connect_time (check_for_already_arrived_messages_and_publish_them b) =
     start_connect_time b"
  by (simp add: check_for_already_arrived_messages_and_publish_them_def Let_def)

lemma make_ready_for_publishing_keeps:
  "reconnect_counter (make_ready_for_publishing b) = reconnect_counter b \<and>
   max_reconnection_tries (make_ready_for_publishing b) = max_reconnection_tries b \<and>
   node_manager (make_ready_for_publishing b) = node_manager b \<and>
   start_connect_time (make_ready_for_publishing b) = start_connect_time b"
  by (simp add: make_ready_for_publishing_def Let_def check_for_already_arrived_keeps log_call_def)

lemma make_ready_for_publishing_state:
  "state (statemachine (make_ready_for_publishing b)) =
     (if channel (thread b) = None \<or> connection (thread b) = None then PERMANENTLY_UNAVAILABLE
      else if state (statemachine b) = WAITING_TO_BE_AVAILABLE then AVAILABLE
      else state (statemachine b))"
  by (simp add: make_ready_for_publishing_def Let_def check_for_already_arrived_keeps
      log_call_def statemachine_defs)

lemma on_channel_open_returns:
  assumes "start_connect_time b \<noteq> None"
  shows "on_channel_open b channel' =
     Inr (make_ready_for_publishing
            (b\<lparr>thread := (thread b)\<lparr>channel := Some channel'\<rparr>,
               reconnect_counter := 0,
               calls := calls b @
                 [Channel_add_on_close_callback channel',
                  Channel_add_on_return_callback channel',
                  Channel_confirm_delivery channel']\<rparr>))"
  using assms
  by (auto simp: on_channel_open_def time_passed_def and_then_def
      add_on_channel_close_callback_def add_on_return_callback_def
      make_channel_confirm_delivery_def log_call_def Let_def)


lemma str_in_no_primary: "\<not> str_in no_fallback_exchange_text no_primary_exchange_text"
  by (simp add: no_fallback_exchange_text_def no_primary_exchange_text_def apostrophe_def)

lemma str_in_no_fallback: "str_in no_fallback_exchange_text no_fallback_exchange_text"
  by (simp add: no_fallback_exchange_text_def apostrophe_def)

section \<open>Construction fails\<close>

text \<open>
  C2. Whatever the arguments, \<open>__init__\<close> raises AttributeError at its first read of
  the defaults module: it asks for \<open>RABBIT_RECONNECTION_MAX_TRIES\<close> (and would ask for
  \<open>RABBIT_RECONNECTION_SECONDS\<close>), which the module does not define; the module
  defines \<open>RABBIT_ASYN_RECONNECTION_MAX_TRIES\<close> and
  \<open>RABBIT_ASYN_RECONNECTION_SECONDS\<close> only. No builder is ever made.
\<close>

theorem init_raises_AttributeError:
  "init thread' statemachine' confirmer' returnhandler' shutter' nodemanager' =
     Inl (AttributeError ''RABBIT_RECONNECTION_MAX_TRIES'') \<and>
   getattr defaults ''RABBIT_RECONNECTION_MAX_TRIES'' =
     Inl (AttributeError ''RABBIT_RECONNECTION_MAX_TRIES'') \<and>
   getattr defaults ''RABBIT_RECONNECTION_SECONDS'' =
     Inl (AttributeError ''RABBIT_RECONNECTION_SECONDS'') \<and>
   getattr defaults ''RABBIT_ASYN_RECONNECTION_MAX_TRIES'' = Inr (PyInt 60) \<and>
   getattr defaults ''RABBIT_ASYN_RECONNECTION_SECONDS'' = Inr (PyInt 5)"
  by (simp add: init_def getattr_int_def getattr_def defaults_def)

section \<open>The rescue step\<close>

text \<open>
  C4 as stated does not hold: the rescue step does not run in the order (a)
  extract, (b) clear, (c) put back, (d) reset the counter. With two messages in flight the
  builder first resets the counter, then extracts, then puts back, and clears the mapping
  last; the specified order would give another sequence of calls.
\<close>

theorem rescue_order_counterexample:
  "calls (prepare_channel_reopen example_connected ''Reconnect'') =
     [Thread_reset_delivery_number,
      Thread_get_unconfirmed_messages_as_list_copy_during_lifetime,
      Thread_send_many_messages [''m7'', ''m8''],
      Thread_reset_unconfirmed_messages_and_delivery_tags] \<and>
   calls (rescue_in_specified_order example_connected) =
     [Thread_get_unconfirmed_messages_as_list_copy_during_lifetime,
      Thread_reset_unconfirmed_messages_and_delivery_tags,
      Thread_send_many_messages [''m7'', ''m8''],
      Thread_reset_delivery_number] \<and>
   calls (prepare_channel_reopen example_connected ''Reconnect'') \<noteq>
     calls (rescue_in_specified_order example_connected)"
  by (simp add: prepare_channel_reopen_eq rescue_calls_def rescue_in_specified_order_def
      example_connected_def example_builder_def example_thread_def log_call_def Let_def
      thread_method_defs)

text \<open>
  C4, amended. The rescue step, run by \<open>reconnect\<close> and by the channel reopen, makes
  its calls in the order (d) reset the delivery number, (a) extract the unconfirmed
  messages as a list, (c) put them back onto the pending queue when there are any, (b)
  clear the mapping. The extraction precedes the clearing, so every unconfirmed message is
  in the pending queue afterwards, in its original order and ahead of the messages that
  were pending; the mapping is empty and the next delivery number is the initial one. The
  thread ends in the state the specified order would leave it in, after the same calls in
  another order.
\<close>

theorem rescue_step:
  "prepare_channel_reopen b operation_string =
     b\<lparr>thread := (thread b)
          \<lparr>unpublished_messages :=
             map snd (unconfirmed_messages (thread b)) @ unpublished_messages (thread b),
           unconfirmed_messages := [],
           delivery_number := initial_delivery_number\<rparr>,
       calls := calls b @
         [Thread_reset_delivery_number,
          Thread_get_unconfirmed_messages_as_list_copy_during_lifetime] @
         (if unconfirmed_messages (thread b) = [] then []
          else [Thread_send_many_messages (map snd (unconfirmed_messages (thread b)))]) @
         [Thread_reset_unconfirmed_messages_and_delivery_tags]\<rparr> \<and>
   thread (prepare_channel_reopen b operation_string) = thread (rescue_in_specified_order b) \<and>
   set (calls (prepare_channel_reopen b operation_string)) =
     set (calls (rescue_in_specified_order b)) \<and>
   reconnect b outcome =
     thread_connection (prepare_channel_reopen b ''Reconnect'') ''ioloop''
       (\<lambda>c. first_connection
              (log_call (Ioloop_stop c) (prepare_channel_reopen b ''Reconnect'')) outcome)"
  by (auto simp add: prepare_channel_reopen_eq rescue_calls_def rescued_thread_def
      rescue_in_specified_order_def log_call_def Let_def thread_method_defs reconnect_def)

section \<open>Failover and giving up\<close>

text \<open>
  C1. The specification has N * R connection attempts before the fatal error for N hosts
  and R reconnection tries (6 for 3 hosts and 2 tries), and so does the comment on
  \<open>__max_reconnection_tries\<close>. The builder makes N * (R + 1): the first pass over the
  hosts is not counted, because the counter is incremented at the end of a pass and compared
  with \<open><=\<close>. From a fresh builder (cursor on the first host, counter 0, R not negative,
  no force-finish issued) the run against a broker that refuses every connection ends with
  the fatal PIDServerException, the state PERMANENTLY_UNAVAILABLE and
  \<open>detail_could_not_connect\<close> set, after N * (R + 1) connection objects.
\<close>

theorem all_refused_attempts:
  assumes "tried (node_manager b) = []" and "reconnect_counter b = 0"
    and "0 \<le> max_reconnection_tries b" and "\<not> is_FORCE_FINISHED (statemachine b)"
  shows "\<exists>b'. refused_everywhere msg b =
             Inl (PIDServerException
                    (Gave_up_after_tries (all_hosts_that_were_tried b')
                       (max_reconnection_tries b)), b') \<and>
           state (statemachine b') = PERMANENTLY_UNAVAILABLE \<and>
           detail_could_not_connect (statemachine b') \<and>
           length (attempted_hosts (calls b')) =
             length (attempted_hosts (calls b)) +
             length (all_nodes (node_manager b)) * (nat (max_reconnection_tries b) + 1)"
proof -
  from refused_everywhere_schedule[OF assms, of msg] obtain b' where
    r: "refused_everywhere msg b =
             Inl (PIDServerException
                    (Gave_up_after_tries (all_hosts_that_were_tried b')
                       (max_reconnection_tries b)), b')"
      "state (statemachine b') = PERMANENTLY_UNAVAILABLE"
      "detail_could_not_connect (statemachine b')"
      "schedule (calls b') =
             schedule (calls b) @
             cycles (wait_seconds_before_reconnect b) (map host (all_nodes (node_manager b)))
               (Suc (nat (max_reconnection_tries b)))"
    by blast
  from r(4) have "attempts_in (schedule (calls b')) =
      attempts_in (schedule (calls b)) +
      length (all_nodes (node_manager b)) * (nat (max_reconnection_tries b) + 1)"
    by (simp only: attempts_in_append attempts_in_cycles length_map Suc_eq_plus1)
  with r(1,2,3) show ?thesis
    by (auto simp: attempts_in_schedule)
qed

text \<open>With the three hosts h1, h2, h3 and 2 tries the builder makes 9 attempts, not 6.\<close>

theorem three_hosts_two_tries_nine_attempts:
  "\<not> is_FORCE_FINISHED (statemachine (example_builder 2 5)) \<and>
   (\<exists>b'. refused_everywhere ''refused'' (example_builder 2 5) =
          Inl (PIDServerException (Gave_up_after_tries (all_hosts_that_were_tried b') 2), b') \<and>
        state (statemachine b') = PERMANENTLY_UNAVAILABLE \<and>
        detail_could_not_connect (statemachine b') \<and>
        length (attempted_hosts (calls b')) = 9)"
  using all_refused_attempts[of "example_builder 2 5" "''refused''"]
  by (simp add: example_builder_def three_hosts_def all_nodes_def example_statemachine_def
      is_FORCE_FINISHED_def)

text \<open>
  C7. With an attempt pending, a connection error with a host still untried in the cycle
  moves the node manager to that host and arms the reconnect timer with 0 seconds; with no
  host left and a reconnection try left it resets the node manager and arms the timer with
  the configured seconds; otherwise it gives up. So, while every attempt fails: the hosts
  still untried in the current cycle are tried next, in their order, each after a timer of
  0 seconds; then each further cycle begins with one timer of the configured seconds and
  tries every host once, in the configured order, with timers of 0 seconds in between. A
  failed host is tried again only after all the others of its cycle, and the configured
  delay occurs at cycle boundaries only.
\<close>

theorem failover_schedule:
  assumes "attempt_pending b"
  shows "on_connection_error b c msg =
     (case untried (node_manager b) of
        p # ps \<Rightarrow>
          Inr (b\<lparr>node_manager := \<lparr>tried = tried (node_manager b) @ [current (node_manager b)],
                                   current = p, untried = ps\<rparr>,
                 statemachine := set_to_waiting_to_be_available (statemachine b),
                 calls := calls b @ [Connection_add_timeout c 0]\<rparr>)
      | [] \<Rightarrow>
          if reconnect_counter b + 1 \<le> max_reconnection_tries b then
            Inr (b\<lparr>reconnect_counter := reconnect_counter b + 1,
                   node_manager := reset_nodes (node_manager b),
                   statemachine := set_to_waiting_to_be_available (statemachine b),
                   calls := calls b @
                     [Connection_add_timeout c (wait_seconds_before_reconnect b)]\<rparr>)
          else
            Inl (PIDServerException
                   (Gave_up_after_tries (all_hosts_that_were_tried b)
                      (max_reconnection_tries b)),
                 b\<lparr>reconnect_counter := reconnect_counter b + 1,
                   statemachine := (statemachine b)
                     \<lparr>state := PERMANENTLY_UNAVAILABLE, detail_could_not_connect := True\<rparr>\<rparr>)) \<and>
   (\<exists>e b'. all_attempts_fail msg b = Inl (e, b') \<and>
      schedule (calls b') =
        schedule (calls b) @ rest_of_cycle (map host (untried (node_manager b))) @
        further_cycles (wait_seconds_before_reconnect b)
          (map host (all_nodes (node_manager b)))
          (nat (max_reconnection_tries b - reconnect_counter b)))"
proof
  from assms have s: "start_connect_time b \<noteq> None" "\<not> is_FORCE_FINISHED (statemachine b)"
    by (simp_all add: attempt_pending_def)
  show "on_connection_error b c msg =
     (case untried (node_manager b) of
        p # ps \<Rightarrow>
          Inr (b\<lparr>node_manager := \<lparr>tried = tried (node_manager b) @ [current (node_manager b)],
                                   current = p, untried = ps\<rparr>,
                 statemachine := set_to_waiting_to_be_available (statemachine b),
                 calls := calls b @ [Connection_add_timeout c 0]\<rparr>)
      | [] \<Rightarrow>
          if reconnect_counter b + 1 \<le> max_reconnection_tries b then
            Inr (b\<lparr>reconnect_counter := reconnect_counter b + 1,
                   node_manager := reset_nodes (node_manager b),
                   statemachine := set_to_waiting_to_be_available (statemachine b),
                   calls := calls b @
                     [Connection_add_timeout c (wait_seconds_before_reconnect b)]\<rparr>)
          else
            Inl (PIDServerException
                   (Gave_up_after_tries (all_hosts_that_were_tried b)
                      (max_reconnection_tries b)),
                 b\<lparr>reconnect_counter := reconnect_counter b + 1,
                   statemachine := (statemachine b)
                     \<lparr>state := PERMANENTLY_UNAVAILABLE, detail_could_not_connect := True\<rparr>\<rparr>))"
  proof (cases "untried (node_manager b)")
    case (Cons p ps)
    from on_connection_error_advance[OF s this, of c msg] Cons show ?thesis by simp
  next
    case Nil
    show ?thesis
    proof (cases "reconnect_counter b + 1 \<le> max_reconnection_tries b")
      case True
      from on_connection_error_next_cycle[OF s Nil True, of c msg] Nil True
      show ?thesis by simp
    next
      case False
      from on_connection_error_gives_up[OF s Nil False, of c msg] Nil False
      show ?thesis by simp
    qed
  qed
next
  from run_from_pending[OF assms refl, of msg]
  show "\<exists>e b'. all_attempts_fail msg b = Inl (e, b') \<and>
      schedule (calls b') =
        schedule (calls b) @ rest_of_cycle (map host (untried (node_manager b))) @
        further_cycles (wait_seconds_before_reconnect b)
          (map host (all_nodes (node_manager b)))
          (nat (max_reconnection_tries b - reconnect_counter b))"
    by blast
qed

theorem failover_schedule_witness:
  "attempt_pending example_pending \<and>
   on_connection_error example_pending 0 ''refused'' =
     Inr (example_pending
            \<lparr>node_manager := \<lparr>tried = [\<lparr>host = ''h1''\<rparr>], current = \<lparr>host = ''h2''\<rparr>,
                               untried = [\<lparr>host = ''h3''\<rparr>]\<rparr>,
             calls := calls example_pending @ [Connection_add_timeout 0 0]\<rparr>) \<and>
   (\<exists>e b'. all_attempts_fail ''refused'' example_pending = Inl (e, b') \<and>
      schedule (calls b') =
        [Attempt ''h1'', Wait 0, Attempt ''h2'', Wait 0, Attempt ''h3'',
         Wait 5, Attempt ''h1'', Wait 0, Attempt ''h2'', Wait 0, Attempt ''h3'',
         Wait 5, Attempt ''h1'', Wait 0, Attempt ''h2'', Wait 0, Attempt ''h3''])"
proof -
  have p: "attempt_pending example_pending"
    by (simp add: attempt_pending_def example_defs is_FORCE_FINISHED_def)
  from failover_schedule[OF p, of 0 "''refused''", THEN conjunct1]
  have h: "on_connection_error example_pending 0 ''refused'' =
     Inr (example_pending
            \<lparr>node_manager := \<lparr>tried = [\<lparr>host = ''h1''\<rparr>], current = \<lparr>host = ''h2''\<rparr>,
                               untried = [\<lparr>host = ''h3''\<rparr>]\<rparr>,
             calls := calls example_pending @ [Connection_add_timeout 0 0]\<rparr>)"
    by (simp add: example_defs statemachine_defs)
  from failover_schedule[OF p, of 0 "''refused''", THEN conjunct2]
  have r: "\<exists>e b'. all_attempts_fail ''refused'' example_pending = Inl (e, b') \<and>
      schedule (calls b') =
        [Attempt ''h1'', Wait 0, Attempt ''h2'', Wait 0, Attempt ''h3'',
         Wait 5, Attempt ''h1'', Wait 0, Attempt ''h2'', Wait 0, Attempt ''h3'',
         Wait 5, Attempt ''h1'', Wait 0, Attempt ''h2'', Wait 0, Attempt ''h3'']"
    by (simp add: example_defs all_nodes_def rest_of_cycle_def further_cycles_def
        eval_nat_numeral)
  from p h r show ?thesis by blast
qed

section \<open>Handlers in a terminal state\<close>

lemma set_to_waiting_terminal:
  "is_terminal (state sm) \<Longrightarrow> set_to_waiting_to_be_available sm = sm"
  by (simp add: set_to_waiting_to_be_available_def)

lemma set_to_available_terminal:
  "is_terminal (state sm) \<Longrightarrow> set_to_available sm = sm"
  by (simp add: set_to_available_def)






lemma terminal_on_channel_closed:
  assumes "is_terminal (state (statemachine b))"
  shows "state_after (on_channel_closed b channel' reply_code reply_text) =
     state (statemachine b)"
  using assms
  by (auto simp: on_channel_closed_def use_different_exchange_and_reopen_channel_def Let_def
      please_open_rabbit_channel_def thread_connection_def set_to_waiting_terminal
      prepare_channel_reopen_eq log_call_def state_after_def split: option.splits)







section \<open>From a connection failure to the next attempt\<close>

lemma on_connection_closed_other:
  assumes "\<not> was_user_shutdown (thread b) reply_code reply_text"
    and "\<not> was_permanent_error (thread b) reply_code reply_text"
  shows "on_connection_closed b c reply_code reply_text =
     on_connection_error (b\<lparr>thread := (thread b)\<lparr>channel := None\<rparr>\<rparr>) c reply_text"
  using assms
  by (auto simp: on_connection_closed_def Let_def was_user_shutdown_def
      was_forced_user_shutdown_def was_gentle_user_shutdown_def was_permanent_error_def
      split: if_splits)

text \<open>The host the node manager turns to after a failure of the current one.\<close>

definition next_endpoint :: "nodemanager \<Rightarrow> connection_parameters" where
  "next_endpoint nm =
     (case untried nm of
        [] \<Rightarrow> current (reset_nodes nm)
      | p # ps \<Rightarrow> p)"

definition next_wait :: "ConnectionBuilder \<Rightarrow> int" where
  "next_wait b =
     (if untried (node_manager b) = [] then wait_seconds_before_reconnect b else 0)"

lemma failure_then_reconnect:
  assumes "attempt_pending b"
    and "untried (node_manager b) \<noteq> [] \<or>
         reconnect_counter b + 1 \<le> max_reconnection_tries b"
  shows "\<exists>b2 b3. on_connection_error b c msg = Inr b2 \<and>
           reconnect b2 Ioloop_runs = Inr b3 \<and> attempt_pending b3 \<and>
           schedule (calls b3) =
             schedule (calls b) @
             [Wait (next_wait b), Attempt (host (next_endpoint (node_manager b)))]"
proof -
  from assms(1) obtain c' where c': "connection (thread b) = Some c'"
    and s: "start_connect_time b \<noteq> None" "\<not> is_FORCE_FINISHED (statemachine b)"
    by (auto simp: attempt_pending_def)
  show ?thesis
  proof (cases "untried (node_manager b)")
    case (Cons p ps)
    define b2 where "b2 =
       b\<lparr>node_manager := \<lparr>tried = tried (node_manager b) @ [current (node_manager b)],
                                current = p, untried = ps\<rparr>,
            statemachine := set_to_waiting_to_be_available (statemachine b),
            calls := calls b @ [Connection_add_timeout c 0]\<rparr>"
    have e: "on_connection_error b c msg = Inr b2"
      unfolding b2_def by (rule on_connection_error_advance[OF s Cons])
    have "connection (thread b2) = Some c'" "\<not> is_FORCE_FINISHED (statemachine b2)"
      using s by (simp_all add: b2_def c')
    from reconnect_after_timer[OF this] obtain b3 where
      "reconnect b2 Ioloop_runs = Inr b3" "attempt_pending b3"
      "schedule (calls b3) = schedule (calls b2) @ [Attempt (host (current (node_manager b2)))]"
      by blast
    with e Cons show ?thesis
      by (intro exI[of _ b2] exI[of _ b3])
         (simp add: b2_def schedule_append next_wait_def next_endpoint_def)
  next
    case Nil
    with assms(2) have le: "reconnect_counter b + 1 \<le> max_reconnection_tries b" by simp
    define b2 where "b2 =
       b\<lparr>reconnect_counter := reconnect_counter b + 1,
            node_manager := reset_nodes (node_manager b),
            statemachine := set_to_waiting_to_be_available (statemachine b),
            calls := calls b @ [Connection_add_timeout c (wait_seconds_before_reconnect b)]\<rparr>"
    have e: "on_connection_error b c msg = Inr b2"
      unfolding b2_def by (rule on_connection_error_next_cycle[OF s Nil le])
    have "connection (thread b2) = Some c'" "\<not> is_FORCE_FINISHED (statemachine b2)"
      using s by (simp_all add: b2_def c')
    from reconnect_after_timer[OF this] obtain b3 where
      "reconnect b2 Ioloop_runs = Inr b3" "attempt_pending b3"
      "schedule (calls b3) = schedule (calls b2) @ [Attempt (host (current (node_manager b2)))]"
      by blast
    with e Nil show ?thesis
      by (intro exI[of _ b2] exI[of _ b3])
         (simp add: b2_def schedule_append next_wait_def next_endpoint_def)
  qed
qed

section \<open>Channel closed\<close>

text \<open>
  C3 as stated does not hold in the two terminal states. A channel close with reply code
  404 that arrives while the state is PERMANENTLY_UNAVAILABLE is taken as the close the
  user asked for: the builder changes nothing, whether the text names the fallback exchange
  or not. In FORCE_FINISHED the builder does switch the exchange and reopen the channel,
  but the state stays FORCE_FINISHED.
\<close>

theorem channel_closed_404_counterexample:
  "\<not> str_in no_fallback_exchange_text no_primary_exchange_text \<and>
   on_channel_closed example_closed_by_user 1 404 no_primary_exchange_text =
     Inr example_closed_by_user \<and>
   exchange_name (thread example_closed_by_user) = ''primary'' \<and>
   fallback_exchange_name example_closed_by_user = ''FALLBACK'' \<and>
   state (statemachine example_closed_by_user) = PERMANENTLY_UNAVAILABLE \<and>
   str_in no_fallback_exchange_text no_fallback_exchange_text \<and>
   on_channel_closed example_closed_by_user 1 404 no_fallback_exchange_text =
     Inr example_closed_by_user \<and>
   state (statemachine example_force_finished) = FORCE_FINISHED \<and>
   state_after (on_channel_closed example_force_finished 1 404 no_primary_exchange_text) =
     FORCE_FINISHED"
proof -
  have "is_terminal (state (statemachine example_force_finished))"
    by (simp add: example_defs is_terminal_def)
  from terminal_on_channel_closed[OF this, of 1 404 no_primary_exchange_text]
  have "state_after (on_channel_closed example_force_finished 1 404 no_primary_exchange_text) =
     FORCE_FINISHED"
    by (simp add: example_defs)
  then show ?thesis
    by (simp add: on_channel_closed_def example_defs is_PERMANENTLY_UNAVAILABLE_def
      no_fallback_exchange_text_def no_primary_exchange_text_def apostrophe_def)
qed

text \<open>
  C3, amended. When the state is not PERMANENTLY_UNAVAILABLE and the channel is reported
  closed with reply code 404: if the text does not name the missing fallback exchange, the
  builder sets the exchange selector to the fallback name, sets the state to
  WAITING_TO_BE_AVAILABLE (a state FORCE_FINISHED stays), runs the rescue step and opens a
  channel on the connection it has; the node manager and the reconnection counter are
  untouched and no connection object is made. If the text names the missing fallback
  exchange, the builder closes the connection, which drives the full reconnection chain:
  the close report, unless its reason is the user's shutdown or a permanent error, is
  handled by \<open>on_connection_closed\<close> as a connection error, and with an attempt pending
  and a host or a reconnection try left that arms the timer whose \<open>reconnect\<close> makes the
  connection object for the next host.
\<close>

theorem channel_closed_404:
  assumes "\<not> is_PERMANENTLY_UNAVAILABLE (statemachine b)"
    and "connection (thread b) = Some c"
  shows "on_channel_closed b channel' 404 reply_text =
     (if str_in no_fallback_exchange_text reply_text then
        Inr (b\<lparr>calls := calls b @ [Connection_close c]\<rparr>)
      else
        Inr (b\<lparr>statemachine := (statemachine b)
                 \<lparr>state := (if state (statemachine b) = FORCE_FINISHED then FORCE_FINISHED
                             else WAITING_TO_BE_AVAILABLE)\<rparr>,
               thread := (rescued_thread (thread b))\<lparr>exchange_name := fallback_exchange_name b\<rparr>,
               calls := calls b @ [Thread_set_exchange_name (fallback_exchange_name b)] @
                        rescue_calls (thread b) @ [Connection_channel c]\<rparr>)) \<and>
   (\<forall>code reason.
      \<not> was_user_shutdown (thread b) code reason \<and> \<not> was_permanent_error (thread b) code reason
      \<longrightarrow>
      on_connection_closed (b\<lparr>calls := calls b @ [Connection_close c]\<rparr>) c code reason =
        on_connection_error
          (b\<lparr>thread := (thread b)\<lparr>channel := None\<rparr>,
             calls := calls b @ [Connection_close c]\<rparr>) c reason \<and>
      (attempt_pending b \<and>
       (untried (node_manager b) \<noteq> [] \<or>
        reconnect_counter b + 1 \<le> max_reconnection_tries b) \<longrightarrow>
       (\<exists>b2 b3.
          on_connection_closed (b\<lparr>calls := calls b @ [Connection_close c]\<rparr>) c code reason =
            Inr b2 \<and>
          reconnect b2 Ioloop_runs = Inr b3 \<and>
          schedule (calls b3) =
            schedule (calls b) @
            [Wait (next_wait b), Attempt (host (next_endpoint (node_manager b)))])))"
proof (intro conjI allI impI)
  from assms show "on_channel_closed b channel' 404 reply_text =
     (if str_in no_fallback_exchange_text reply_text then
        Inr (b\<lparr>calls := calls b @ [Connection_close c]\<rparr>)
      else
        Inr (b\<lparr>statemachine := (statemachine b)
                 \<lparr>state := (if state (statemachine b) = FORCE_FINISHED then FORCE_FINISHED
                             else WAITING_TO_BE_AVAILABLE)\<rparr>,
               thread := (rescued_thread (thread b))\<lparr>exchange_name := fallback_exchange_name b\<rparr>,
               calls := calls b @ [Thread_set_exchange_name (fallback_exchange_name b)] @
                        rescue_calls (thread b) @ [Connection_channel c]\<rparr>))"
    by (auto simp: on_channel_closed_def use_different_exchange_and_reopen_channel_def
        thread_connection_def please_open_rabbit_channel_def prepare_channel_reopen_eq
        log_call_def Let_def set_to_waiting_to_be_available_def is_terminal_def
        is_PERMANENTLY_UNAVAILABLE_def rescued_thread_def set_exchange_name_def
        rescue_calls_def)
next
  fix code reason
  assume r: "\<not> was_user_shutdown (thread b) code reason \<and>
             \<not> was_permanent_error (thread b) code reason"
  let ?b1 = "b\<lparr>calls := calls b @ [Connection_close c]\<rparr>"
  from r have n: "\<not> was_user_shutdown (thread ?b1) code reason"
    "\<not> was_permanent_error (thread ?b1) code reason" by simp_all
  have eq: "?b1\<lparr>thread := (thread ?b1)\<lparr>channel := None\<rparr>\<rparr> =
      b\<lparr>thread := (thread b)\<lparr>channel := None\<rparr>,
        calls := calls b @ [Connection_close c]\<rparr>"
    by simp
  show e: "on_connection_closed ?b1 c code reason =
        on_connection_error
          (b\<lparr>thread := (thread b)\<lparr>channel := None\<rparr>,
             calls := calls b @ [Connection_close c]\<rparr>) c reason"
    by (simp only: on_connection_closed_other[OF n, of c] eq)
  assume p: "attempt_pending b \<and>
       (untried (node_manager b) \<noteq> [] \<or>
        reconnect_counter b + 1 \<le> max_reconnection_tries b)"
  let ?b1' = "b\<lparr>thread := (thread b)\<lparr>channel := None\<rparr>,
             calls := calls b @ [Connection_close c]\<rparr>"
  from p have "attempt_pending ?b1'"
    "untried (node_manager ?b1') \<noteq> [] \<or>
     reconnect_counter ?b1' + 1 \<le> max_reconnection_tries ?b1'"
    by (simp_all add: attempt_pending_def)
  from failure_then_reconnect[OF this, of c reason] e
  show "\<exists>b2 b3.
          on_connection_closed ?b1 c code reason = Inr b2 \<and>
          reconnect b2 Ioloop_runs = Inr b3 \<and>
          schedule (calls b3) =
            schedule (calls b) @
            [Wait (next_wait b), Attempt (host (next_endpoint (node_manager b)))]"
    by (auto simp: schedule_append next_wait_def)
qed

theorem channel_closed_404_witness:
  "\<not> is_PERMANENTLY_UNAVAILABLE (statemachine example_connected) \<and>
   connection (thread example_connected) = Some 0 \<and>
   on_channel_closed example_connected 1 404 no_primary_exchange_text =
     Inr (example_connected
        \<lparr>statemachine := example_statemachine\<lparr>state := WAITING_TO_BE_AVAILABLE\<rparr>,
         thread := example_thread
           \<lparr>connection := Some 0, channel := Some 1,
            unpublished_messages := [''m7'', ''m8'', ''m9''],
            unconfirmed_messages := [],
            delivery_number := 1,
            exchange_name := ''FALLBACK''\<rparr>,
         calls := [Thread_set_exchange_name ''FALLBACK'',
                   Thread_reset_delivery_number,
                   Thread_get_unconfirmed_messages_as_list_copy_during_lifetime,
                   Thread_send_many_messages [''m7'', ''m8''],
                   Thread_reset_unconfirmed_messages_and_delivery_tags,
                   Connection_channel 0]\<rparr>) \<and>
   on_channel_closed example_connected 1 404 no_fallback_exchange_text =
     Inr (example_connected\<lparr>calls := [Connection_close 0]\<rparr>) \<and>
   \<not> was_user_shutdown (thread example_connected) 200 ''Normal shutdown'' \<and>
   \<not> was_permanent_error (thread example_connected) 200 ''Normal shutdown'' \<and>
   attempt_pending example_connected \<and>
   untried (node_manager example_connected) \<noteq> [] \<and>
   (\<exists>b2 b3.
      on_connection_closed (example_connected\<lparr>calls := [Connection_close 0]\<rparr>) 0 200
        ''Normal shutdown'' = Inr b2 \<and>
      reconnect b2 Ioloop_runs = Inr b3 \<and>
      schedule (calls b3) = [Wait 0, Attempt ''h2''])"
proof -
  have a: "\<not> is_PERMANENTLY_UNAVAILABLE (statemachine example_connected)"
    by (simp add: example_connected_def example_statemachine_def is_PERMANENTLY_UNAVAILABLE_def)
  have c: "connection (thread example_connected) = Some 0"
    by (simp add: example_connected_def)
  have n: "\<not> was_user_shutdown (thread example_connected) 200 ''Normal shutdown''"
    "\<not> was_permanent_error (thread example_connected) 200 ''Normal shutdown''"
    by (simp_all add: was_user_shutdown_def was_forced_user_shutdown_def
        was_gentle_user_shutdown_def was_permanent_error_def example_defs)
  have p: "attempt_pending example_connected"
    "untried (node_manager example_connected) \<noteq> []"
    by (simp_all add: attempt_pending_def is_FORCE_FINISHED_def example_defs)
  from channel_closed_404[OF a c, of 1 no_primary_exchange_text, THEN conjunct1]
    str_in_no_primary
  have 1: "on_channel_closed example_connected 1 404 no_primary_exchange_text =
     Inr (example_connected
        \<lparr>statemachine := example_statemachine\<lparr>state := WAITING_TO_BE_AVAILABLE\<rparr>,
         thread := example_thread
           \<lparr>connection := Some 0, channel := Some 1,
            unpublished_messages := [''m7'', ''m8'', ''m9''],
            unconfirmed_messages := [],
            delivery_number := 1,
            exchange_name := ''FALLBACK''\<rparr>,
         calls := [Thread_set_exchange_name ''FALLBACK'',
                   Thread_reset_delivery_number,
                   Thread_get_unconfirmed_messages_as_list_copy_during_lifetime,
                   Thread_send_many_messages [''m7'', ''m8''],
                   Thread_reset_unconfirmed_messages_and_delivery_tags,
                   Connection_channel 0]\<rparr>)"
    by (simp add: example_connected_def example_builder_def example_thread_def
        example_statemachine_def rescued_thread_def rescue_calls_def
        initial_delivery_number_def)
  from channel_closed_404[OF a c, of 1 no_fallback_exchange_text, THEN conjunct1]
    str_in_no_fallback
  have 2: "on_channel_closed example_connected 1 404 no_fallback_exchange_text =
     Inr (example_connected\<lparr>calls := [Connection_close 0]\<rparr>)"
    by (simp add: example_connected_def example_builder_def)
  from channel_closed_404[OF a c, of 1 no_fallback_exchange_text, THEN conjunct2,
      THEN spec, THEN spec, THEN mp, THEN conjunct2, THEN mp, of 200 "''Normal shutdown''"]
    n p
  have 3: "\<exists>b2 b3.
      on_connection_closed (example_connected\<lparr>calls := [Connection_close 0]\<rparr>) 0 200
        ''Normal shutdown'' = Inr b2 \<and>
      reconnect b2 Ioloop_runs = Inr b3 \<and>
      schedule (calls b3) = [Wait 0, Attempt ''h2'']"
    by (simp add: next_wait_def next_endpoint_def example_defs)
  from a c 1 2 n p 3 show ?thesis by blast
qed

section \<open>After a force-finish\<close>




section \<open>Connection closed\<close>

text \<open>
  C6 as stated does not hold: on a close the user asked for (the user's close code with
  the forced-finish text) the handler sets PERMANENTLY_UNAVAILABLE and stops the ioloop,
  and that is all; it does not call \<open>unblock_events\<close>, so it releases no blocked
  caller.
\<close>

theorem user_shutdown_counterexample:
  "was_user_shutdown (thread example_connected) 999 ''closed (forced finish)'' \<and>
   on_connection_closed example_connected 0 999 ''closed (forced finish)'' =
     Inr (example_connected
            \<lparr>thread := (thread example_connected)\<lparr>channel := None\<rparr>,
             statemachine := example_statemachine\<lparr>state := PERMANENTLY_UNAVAILABLE\<rparr>,
             calls := [Ioloop_stop 0]\<rparr>) \<and>
   (case on_connection_closed example_connected 0 999 ''closed (forced finish)'' of
      Inl e \<Rightarrow> False
    | Inr b' \<Rightarrow> Thread_unblock_events \<notin> set (calls b'))"
  by (simp add: on_connection_closed_def was_user_shutdown_def was_forced_user_shutdown_def
      make_permanently_closed_by_user_def thread_connection_def log_call_def Let_def
      set_to_permanently_unavailable_def example_defs)

text \<open>
  C6, amended. When the connection is reported closed (and there is a connection object),
  the handler forgets the channel and classifies the reason. The user's close code together
  with the forced-finish or the normal-shutdown text: PERMANENTLY_UNAVAILABLE, the ioloop is
  stopped, no retry. Otherwise, a text that contains the permanent-error marker:
  PERMANENTLY_UNAVAILABLE, the blocked callers are released (\<open>unblock_events\<close>), the
  ioloop is stopped, no retry. Every other reason: exactly what \<open>on_connection_error\<close>
  does with the same connection and text.
\<close>

theorem connection_closed_classified:
  assumes "connection (thread b) = Some c"
  shows "on_connection_closed b connection' reply_code reply_text =
     (if was_user_shutdown (thread b) reply_code reply_text then
        Inr (b\<lparr>thread := (thread b)\<lparr>channel := None\<rparr>,
               statemachine := (statemachine b)\<lparr>state := PERMANENTLY_UNAVAILABLE\<rparr>,
               calls := calls b @ [Ioloop_stop c]\<rparr>)
      else if str_in (ERROR_TEXT_CONNECTION_PERMANENT_ERROR (thread b)) reply_text then
        Inr (b\<lparr>thread := (thread b)\<lparr>channel := None\<rparr>,
               statemachine := (statemachine b)\<lparr>state := PERMANENTLY_UNAVAILABLE\<rparr>,
               calls := calls b @ [Thread_unblock_events, Ioloop_stop c]\<rparr>)
      else
        on_connection_error (b\<lparr>thread := (thread b)\<lparr>channel := None\<rparr>\<rparr>)
          connection' reply_text)"
  using assms
  by (simp add: on_connection_closed_def was_user_shutdown_def was_forced_user_shutdown_def
      was_gentle_user_shutdown_def was_permanent_error_def
      make_permanently_closed_by_user_def make_permanently_closed_by_error_def
      thread_connection_def log_call_def Let_def set_to_permanently_unavailable_def)

theorem connection_closed_classified_witness:
  "connection (thread example_connected) = Some 0 \<and>
   on_connection_closed example_connected 0 999 ''closed (not reopen)'' =
     Inr (example_connected
            \<lparr>thread := (thread example_connected)\<lparr>channel := None\<rparr>,
             statemachine := example_statemachine\<lparr>state := PERMANENTLY_UNAVAILABLE\<rparr>,
             calls := [Ioloop_stop 0]\<rparr>) \<and>
   on_connection_closed example_connected 0 320 ''broker says (permanent error)'' =
     Inr (example_connected
            \<lparr>thread := (thread example_connected)\<lparr>channel := None\<rparr>,
             statemachine := example_statemachine\<lparr>state := PERMANENTLY_UNAVAILABLE\<rparr>,
             calls := [Thread_unblock_events, Ioloop_stop 0]\<rparr>) \<and>
   on_connection_closed example_connected 0 320 ''CONNECTION_FORCED'' =
     on_connection_error (example_connected\<lparr>thread := (thread example_connected)\<lparr>channel := None\<rparr>\<rparr>)
       0 ''CONNECTION_FORCED''"
proof -
  have c: "connection (thread example_connected) = Some 0"
    by (simp add: example_defs)
  from connection_closed_classified[OF c, of 0 999 "''closed (not reopen)''"]
    connection_closed_classified[OF c, of 0 320 "''broker says (permanent error)''"]
    connection_closed_classified[OF c, of 0 320 "''CONNECTION_FORCED''"] c
  show ?thesis
    by (simp add: was_user_shutdown_def was_forced_user_shutdown_def
        was_gentle_user_shutdown_def example_defs)
qed

section \<open>Authentication failure\<close>

text \<open>
  C8. When the ioloop raises ProbableAuthenticationError, \<open>__start_waiting_for_events\<close>
  catches it, asks the state machine for WAITING_TO_BE_AVAILABLE, sets the authentication
  detail flag and calls \<open>on_connection_error\<close> itself, on the connection at hand; then
  it starts the ioloop again. Its result is the result of that handler, as for any
  connection failure: after a force-finish the fatal PIDServerException; in a state that is
  not terminal the state becomes WAITING_TO_BE_AVAILABLE, and with a host left in the cycle
  the node manager advances to it and a timer of 0 seconds is armed for the reconnect, and
  nothing is raised.
\<close>

theorem authentication_error_is_connection_error:
  assumes "connection (thread b) = Some c" and "start_connect_time b \<noteq> None"
  shows "start_waiting_for_events b Raises_ProbableAuthenticationError =
           and_then
             (on_connection_error
                (b\<lparr>statemachine := (set_to_waiting_to_be_available (statemachine b))
                      \<lparr>detail_authentication_exception := True\<rparr>,
                   calls := calls b @
                     [Thread_tell_publisher_to_stop_waiting_for_thread_to_accept_events,
                      Thread_continue_gently_closing_if_applicable,
                      Ioloop_start c]\<rparr>)
                c ''ProbableAuthenticationError issued by pika'')
             (\<lambda>b'. thread_connection b' ''ioloop'' (\<lambda>c'. Inr (log_call (Ioloop_start c') b'))) \<and>
         (is_FORCE_FINISHED (statemachine b) \<longrightarrow>
            start_waiting_for_events b Raises_ProbableAuthenticationError =
              Inl (PIDServerException
                     (Gave_up_after_force_finish (all_hosts_that_were_tried b)),
                   b\<lparr>statemachine := (statemachine b)\<lparr>detail_authentication_exception := True\<rparr>,
                     calls := calls b @
                       [Thread_tell_publisher_to_stop_waiting_for_thread_to_accept_events,
                        Thread_continue_gently_closing_if_applicable,
                        Ioloop_start c]\<rparr>)) \<and>
         (\<not> is_terminal (state (statemachine b)) \<longrightarrow>
            (case untried (node_manager b) of
               [] \<Rightarrow> True
             | p # ps \<Rightarrow>
                 start_waiting_for_events b Raises_ProbableAuthenticationError =
                   Inr (b\<lparr>statemachine := (statemachine b)
                            \<lparr>state := WAITING_TO_BE_AVAILABLE,
                             detail_authentication_exception := True\<rparr>,
                          node_manager :=
                            \<lparr>tried = tried (node_manager b) @ [current (node_manager b)],
                             current = p, untried = ps\<rparr>,
                          calls := calls b @
                            [Thread_tell_publisher_to_stop_waiting_for_thread_to_accept_events,
                             Thread_continue_gently_closing_if_applicable,
                             Ioloop_start c,
                             Connection_add_timeout c 0,
                             Ioloop_start c]\<rparr>)))"
proof (intro conjI impI)
  let ?b5 = "b\<lparr>statemachine := (set_to_waiting_to_be_available (statemachine b))
                      \<lparr>detail_authentication_exception := True\<rparr>,
                   calls := calls b @
                     [Thread_tell_publisher_to_stop_waiting_for_thread_to_accept_events,
                      Thread_continue_gently_closing_if_applicable,
                      Ioloop_start c]\<rparr>"
  have r: "b\<lparr>calls := calls b @
                     [Thread_tell_publisher_to_stop_waiting_for_thread_to_accept_events,
                      Thread_continue_gently_closing_if_applicable,
                      Ioloop_start c],
               statemachine := (set_to_waiting_to_be_available (statemachine b))
                      \<lparr>detail_authentication_exception := True\<rparr>\<rparr> = ?b5"
    by simp
  from assms show 1: "start_waiting_for_events b Raises_ProbableAuthenticationError =
      and_then (on_connection_error ?b5 c ''ProbableAuthenticationError issued by pika'')
        (\<lambda>b'. thread_connection b' ''ioloop'' (\<lambda>c'. Inr (log_call (Ioloop_start c') b')))"
    by (auto simp: start_waiting_for_events_def time_passed_def log_call_def Let_def
        and_then_def r split: sum.splits)
  {
    assume f: "is_FORCE_FINISHED (statemachine b)"
    then have t: "is_terminal (state (statemachine b))"
      by (simp add: is_FORCE_FINISHED_def is_terminal_def)
    from f have "is_FORCE_FINISHED (statemachine ?b5)"
      by (simp add: is_FORCE_FINISHED_def set_to_waiting_terminal[OF t])
    from on_connection_error_force_finished[OF this,
        of c "''ProbableAuthenticationError issued by pika''"] 1 assms(2)
    show "start_waiting_for_events b Raises_ProbableAuthenticationError =
              Inl (PIDServerException
                     (Gave_up_after_force_finish (all_hosts_that_were_tried b)),
                   b\<lparr>statemachine := (statemachine b)\<lparr>detail_authentication_exception := True\<rparr>,
                     calls := calls b @
                       [Thread_tell_publisher_to_stop_waiting_for_thread_to_accept_events,
                        Thread_continue_gently_closing_if_applicable,
                        Ioloop_start c]\<rparr>)"
      by (auto simp: and_then_def set_to_waiting_terminal[OF t])
  }
  {
    assume n: "\<not> is_terminal (state (statemachine b))"
    have 2: "start_connect_time ?b5 \<noteq> None" "\<not> is_FORCE_FINISHED (statemachine ?b5)"
      using assms n
      by (simp_all add: is_FORCE_FINISHED_def set_to_waiting_to_be_available_def)
    show "case untried (node_manager b) of
               [] \<Rightarrow> True
             | p # ps \<Rightarrow>
                 start_waiting_for_events b Raises_ProbableAuthenticationError =
                   Inr (b\<lparr>statemachine := (statemachine b)
                            \<lparr>state := WAITING_TO_BE_AVAILABLE,
                             detail_authentication_exception := True\<rparr>,
                          node_manager :=
                            \<lparr>tried = tried (node_manager b) @ [current (node_manager b)],
                             current = p, untried = ps\<rparr>,
                          calls := calls b @
                            [Thread_tell_publisher_to_stop_waiting_for_thread_to_accept_events,
                             Thread_continue_gently_closing_if_applicable,
                             Ioloop_start c,
                             Connection_add_timeout c 0,
                             Ioloop_start c]\<rparr>)"
    proof (cases "untried (node_manager b)")
      case Nil
      then show ?thesis by simp
    next
      case (Cons p ps)
      then have "untried (node_manager ?b5) = p # ps" by simp
      from on_connection_error_advance[OF 2 this,
          of c "''ProbableAuthenticationError issued by pika''"] 1 Cons assms(1) n
      show ?thesis
        by (simp add: and_then_def thread_connection_def log_call_def
            set_to_waiting_to_be_available_def)
    qed
  }
qed

theorem authentication_error_is_connection_error_witness:
  "connection (thread example_connecting) = Some 0 \<and>
   start_connect_time example_connecting \<noteq> None \<and>
   \<not> is_terminal (state (statemachine example_connecting)) \<and>
   start_waiting_for_events example_connecting Raises_ProbableAuthenticationError =
     Inr (example_connecting
            \<lparr>statemachine := example_statemachine
               \<lparr>state := WAITING_TO_BE_AVAILABLE, detail_authentication_exception := True\<rparr>,
             node_manager :=
               \<lparr>tried = [\<lparr>host = ''h1''\<rparr>], current = \<lparr>host = ''h2''\<rparr>,
                untried = [\<lparr>host = ''h3''\<rparr>]\<rparr>,
             calls :=
               [Pika_SelectConnection ''h1'' 0,
                Thread_tell_publisher_to_stop_waiting_for_thread_to_accept_events,
                Thread_continue_gently_closing_if_applicable,
                Ioloop_start 0,
                Connection_add_timeout 0 0,
                Ioloop_start 0]\<rparr>) \<and>
   connection (thread example_force_finished) = Some 0 \<and>
   start_connect_time example_force_finished \<noteq> None \<and>
   is_FORCE_FINISHED (statemachine example_force_finished) \<and>
   start_waiting_for_events example_force_finished Raises_ProbableAuthenticationError =
     Inl (PIDServerException (Gave_up_after_force_finish {''h1''}),
          example_force_finished
            \<lparr>statemachine := example_statemachine
               \<lparr>state := FORCE_FINISHED, detail_authentication_exception := True\<rparr>,
             calls :=
               [Thread_tell_publisher_to_stop_waiting_for_thread_to_accept_events,
                Thread_continue_gently_closing_if_applicable,
                Ioloop_start 0]\<rparr>)"
proof -
  have c: "connection (thread example_connecting) = Some 0"
    and s: "start_connect_time example_connecting \<noteq> None"
    and n: "\<not> is_terminal (state (statemachine example_connecting))"
    by (simp_all add: example_defs is_terminal_def)
  have c': "connection (thread example_force_finished) = Some 0"
    and s': "start_connect_time example_force_finished \<noteq> None"
    and f: "is_FORCE_FINISHED (statemachine example_force_finished)"
    by (simp_all add: example_defs is_FORCE_FINISHED_def)
  from authentication_error_is_connection_error[OF c s, THEN conjunct2, THEN conjunct2] n
  have 1: "start_waiting_for_events example_connecting Raises_ProbableAuthenticationError =
     Inr (example_connecting
            \<lparr>statemachine := example_statemachine
               \<lparr>state := WAITING_TO_BE_AVAILABLE, detail_authentication_exception := True\<rparr>,
             node_manager :=
               \<lparr>tried = [\<lparr>host = ''h1''\<rparr>], current = \<lparr>host = ''h2''\<rparr>,
                untried = [\<lparr>host = ''h3''\<rparr>]\<rparr>,
             calls :=
               [Pika_SelectConnection ''h1'' 0,
                Thread_tell_publisher_to_stop_waiting_for_thread_to_accept_events,
                Thread_continue_gently_closing_if_applicable,
                Ioloop_start 0,
                Connection_add_timeout 0 0,
                Ioloop_start 0]\<rparr>)"
    by (simp add: example_defs)
  from authentication_error_is_connection_error[OF c' s', THEN conjunct2, THEN conjunct1] f
  have 2: "start_waiting_for_events example_force_finished Raises_ProbableAuthenticationError =
     Inl (PIDServerException (Gave_up_after_force_finish {''h1''}),
          example_force_finished
            \<lparr>statemachine := example_statemachine
               \<lparr>state := FORCE_FINISHED, detail_authentication_exception := True\<rparr>,
             calls :=
               [Thread_tell_publisher_to_stop_waiting_for_thread_to_accept_events,
                Thread_continue_gently_closing_if_applicable,
                Ioloop_start 0]\<rparr>)"
    by (simp add: example_defs)
  from c s n 1 c' s' f 2 show ?thesis by blast
qed

section \<open>Terminal states\<close>



section \<open>Channel open\<close>

text \<open>
  C10. Every channel open that succeeds (a connection attempt was started, so the handler
  returns) sets the reconnection counter to 0. The maximum therefore bounds the failed
  cycles since the last channel open only: whatever the counter was before, even at the
  maximum, the next failure at the end of a cycle is retried (when the maximum is at least
  1 and no force-finish was issued) and counts as the first.
\<close>

theorem channel_open_resets_counter:
  assumes "start_connect_time b \<noteq> None"
  shows "\<exists>b'. on_channel_open b channel' = Inr b' \<and> reconnect_counter b' = 0 \<and>
           max_reconnection_tries b' = max_reconnection_tries b \<and>
           node_manager b' = node_manager b \<and>
           (\<not> is_FORCE_FINISHED (statemachine b) \<and> \<not> has_more_urls (node_manager b) \<and>
            1 \<le> max_reconnection_tries b \<longrightarrow>
            (\<exists>b''. on_connection_error b' connection' msg = Inr b'' \<and>
                   reconnect_counter b'' = 1))"
proof -
  define b' where "b' = make_ready_for_publishing
            (b\<lparr>thread := (thread b)\<lparr>channel := Some channel'\<rparr>,
               reconnect_counter := 0,
               calls := calls b @
                 [Channel_add_on_close_callback channel',
                  Channel_add_on_return_callback channel',
                  Channel_confirm_delivery channel']\<rparr>)"
  have o: "on_channel_open b channel' = Inr b'"
    unfolding b'_def by (rule on_channel_open_returns[OF assms])
  have k: "reconnect_counter b' = 0" "max_reconnection_tries b' = max_reconnection_tries b"
    "node_manager b' = node_manager b" "start_connect_time b' \<noteq> None"
    using assms by (simp_all add: b'_def make_ready_for_publishing_keeps)
  have s: "is_FORCE_FINISHED (statemachine b') \<Longrightarrow> is_FORCE_FINISHED (statemachine b)"
    by (simp add: b'_def is_FORCE_FINISHED_def make_ready_for_publishing_state split: if_splits)
  show ?thesis
  proof (cases "\<not> is_FORCE_FINISHED (statemachine b) \<and> \<not> has_more_urls (node_manager b) \<and>
            1 \<le> max_reconnection_tries b")
    case False
    with o k show ?thesis by auto
  next
    case True
    with s k have "\<not> is_FORCE_FINISHED (statemachine b')" "untried (node_manager b') = []"
      "reconnect_counter b' + 1 \<le> max_reconnection_tries b'"
      by (auto simp: has_more_urls_def get_num_left_urls_def)
    from on_connection_error_next_cycle[OF k(4) this, of connection' msg] o k
    show ?thesis by auto
  qed
qed

theorem channel_open_resets_counter_witness:
  "start_connect_time example_tries_used_up \<noteq> None \<and>
   \<not> is_FORCE_FINISHED (statemachine example_tries_used_up) \<and>
   \<not> has_more_urls (node_manager example_tries_used_up) \<and>
   1 \<le> max_reconnection_tries example_tries_used_up \<and>
   reconnect_counter example_tries_used_up = max_reconnection_tries example_tries_used_up \<and>
   (\<exists>e b. on_connection_error example_tries_used_up 0 ''refused'' = Inl (e, b)) \<and>
   (\<exists>b'. on_channel_open example_tries_used_up 1 = Inr b' \<and> reconnect_counter b' = 0 \<and>
      (\<exists>b''. on_connection_error b' 0 ''refused'' = Inr b'' \<and> reconnect_counter b'' = 1))"
proof -
  have h: "start_connect_time example_tries_used_up \<noteq> None"
    "\<not> is_FORCE_FINISHED (statemachine example_tries_used_up)"
    "\<not> has_more_urls (node_manager example_tries_used_up)"
    "1 \<le> max_reconnection_tries example_tries_used_up"
    "reconnect_counter example_tries_used_up = max_reconnection_tries example_tries_used_up"
    "untried (node_manager example_tries_used_up) = []"
    by (simp_all add: example_tries_used_up_def example_defs is_FORCE_FINISHED_def
        has_more_urls_def get_num_left_urls_def)
  have g: "\<exists>e b. on_connection_error example_tries_used_up 0 ''refused'' = Inl (e, b)"
    using on_connection_error_gives_up[OF h(1,2,6), of 0 "''refused''"] h(5) by simp
  from channel_open_resets_counter[OF h(1), of 1 0 "''refused''"] h g
  show ?thesis by auto
qed

end
